theory Spec2Isabelle
  imports Complex_Main "HOL-Library.Sublist" "HOL-Library.Log_Nat"
begin

section \<open>The order pipeline of \<^verbatim>\<open>order_processing_incremental.py\<close>\<close>

text \<open>
  The DAG has seven tasks: a sensor on the landing prefix, a load job into
  \<^verbatim>\<open>staging_orders\<close>, two quality checks, an insert into \<^verbatim>\<open>fact_orders\<close>, a
  merge into \<^verbatim>\<open>agg_hourly_metrics\<close> and a Python function that renames the
  landed objects. Five of them are SQL statements; each is embedded as a function from
  the tables it reads to the table it writes, tables being lists of rows.

  Conventions of the embedding:
  \<^item> a NULLABLE column is an \<open>option\<close>, a REQUIRED one is not;
  \<^item> a TIMESTAMP is an \<open>int\<close>, the microseconds since the epoch (UTC);
  \<^item> a FLOAT value is the \<open>rat\<close> it denotes (infinities and NaN are left out);
    comparison and \<^verbatim>\<open>ABS\<close> are exact on it, and every operation that rounds is an
    operation of the engine, taken as a parameter (\<open>float_ops\<close> below);
  \<^item> \<^verbatim>\<open>CURRENT_DATE()\<close> and \<^verbatim>\<open>CURRENT_TIMESTAMP()\<close> are read from a parameter
    \<open>now\<close>, the time at which the statement runs.
\<close>

subsection \<open>Configuration\<close>

definition GCS_ORDER_PREFIX :: string where
  "GCS_ORDER_PREFIX = ''landing/orders/''"

subsection \<open>Dates\<close>

definition DATE :: "int \<Rightarrow> int" where
  "DATE ts = ts div 86400000000"

definition EXTRACT_HOUR :: "int \<Rightarrow> int" where
  "EXTRACT_HOUR ts = (ts div 3600000000) mod 24"

definition TIMESTAMP_TRUNC_HOUR :: "int \<Rightarrow> int" where
  "TIMESTAMP_TRUNC_HOUR ts = ts - ts mod 3600000000"

subsection \<open>FLOAT64\<close>

text \<open>
  The statements multiply, subtract, sum, average and round FLOAT64 values. What these
  operations return is decided by the engine and not by the DAG, so the embedding takes
  them as a parameter: the conversion of an INT64, the product and the difference of two
  values, \<^verbatim>\<open>SUM\<close> and \<^verbatim>\<open>AVG\<close> of the values of a group that is not empty, and
  \<^verbatim>\<open>ROUND(x, n)\<close>. The properties below hold for every choice of them.
\<close>

record float_ops =
  to_float :: "int \<Rightarrow> rat"
  f_mul :: "rat \<Rightarrow> rat \<Rightarrow> rat"
  f_sub :: "rat \<Rightarrow> rat \<Rightarrow> rat"
  f_sum :: "rat list \<Rightarrow> rat"
  f_avg :: "rat list \<Rightarrow> rat"
  f_round :: "rat \<Rightarrow> nat \<Rightarrow> rat"

text \<open>
  The binary64 format: \<open>fl64 x\<close> is the value of the format nearest to \<open>x\<close>, a
  multiple of the unit in the last place of \<open>x\<close> (53 significant bits, exponents from
  -1022 on), ties going to the even multiple. Results beyond the largest value of the
  format are left out. A literal of a statement, such as \<^verbatim>\<open>0.01\<close>, denotes
  \<open>fl64\<close> of its decimal value.
\<close>

definition pow2 :: "int \<Rightarrow> rat" where
  "pow2 e = (if 0 \<le> e then 2 ^ nat e else 1 / 2 ^ nat (- e))"

text \<open>The exponent \<open>e\<close> with \<open>pow2 e \<le> \<bar>x\<bar> < pow2 (e + 1)\<close>, for \<open>x\<close> other than 0.\<close>

definition exponent :: "rat \<Rightarrow> int" where
  "exponent x =
     (let k = bitlen (fst (quotient_of \<bar>x\<bar>)) - bitlen (snd (quotient_of \<bar>x\<bar>))
      in if pow2 k \<le> \<bar>x\<bar> then k else k - 1)"

definition round_half_even :: "rat \<Rightarrow> int" where
  "round_half_even q =
     (let n = \<lfloor>q\<rfloor>; d = q - of_int n
      in if d < 1 / 2 then n else if 1 / 2 < d then n + 1 else if even n then n else n + 1)"

definition fl64 :: "rat \<Rightarrow> rat" where
  "fl64 x =
     (if x = 0 then 0
      else let ulp = pow2 (max (exponent x) (- 1022) - 52)
           in of_int (round_half_even (x / ulp)) * ulp)"

text \<open>Rounding to \<open>n\<close> decimals, halfway cases away from zero.\<close>

definition round_half_away :: "rat \<Rightarrow> nat \<Rightarrow> rat" where
  "round_half_away x n =
     (if 0 \<le> x then of_int \<lfloor>x * 10 ^ n + 1 / 2\<rfloor> / 10 ^ n
      else - (of_int \<lfloor>- x * 10 ^ n + 1 / 2\<rfloor> / 10 ^ n))"

text \<open>
  The operations of IEEE 754 in binary64, each the exact result rounded once. The sum
  adds the values in the order of the rows, the average divides that sum by the number of
  rows, and \<^verbatim>\<open>ROUND\<close> gives the binary64 value nearest to the decimal rounding. The
  concrete runs below are computed with these.
\<close>

definition binary64 :: float_ops where
  "binary64 =
     \<lparr>to_float = (\<lambda>i. fl64 (of_int i)),
      f_mul = (\<lambda>a b. fl64 (a * b)),
      f_sub = (\<lambda>a b. fl64 (a - b)),
      f_sum = foldl (\<lambda>s x. fl64 (s + x)) 0,
      f_avg = (\<lambda>xs. fl64 (foldl (\<lambda>s x. fl64 (s + x)) 0 xs / of_nat (length xs))),
      f_round = (\<lambda>x n. fl64 (round_half_away x n))\<rparr>"

subsection \<open>NULL\<close>

text \<open>
  \<^verbatim>\<open>quantity * unit_price\<close>: NULL as soon as one operand is; otherwise the INT64
  is converted and the product is a FLOAT64 product.
\<close>

definition sql_mul :: "float_ops \<Rightarrow> int option \<Rightarrow> rat option \<Rightarrow> rat option" where
  "sql_mul fp q p =
     (case q of None \<Rightarrow> None
      | Some a \<Rightarrow> (case p of None \<Rightarrow> None | Some b \<Rightarrow> Some (f_mul fp (to_float fp a) b)))"

text \<open>
  \<^verbatim>\<open>SUM\<close> skips NULL inputs, and is NULL when no non-NULL input is left; in
  particular over no rows at all.
\<close>

definition sql_sum :: "float_ops \<Rightarrow> rat option list \<Rightarrow> rat option" where
  "sql_sum fp xs =
     (let ys = concat (map (\<lambda>x. case x of None \<Rightarrow> [] | Some y \<Rightarrow> [y]) xs)
      in if ys = [] then None else Some (f_sum fp ys))"

text \<open>\<^verbatim>\<open>ROUND(x, n)\<close>: NULL stays NULL.\<close>

definition sql_round :: "float_ops \<Rightarrow> rat option \<Rightarrow> nat \<Rightarrow> rat option" where
  "sql_round fp x n = (case x of None \<Rightarrow> None | Some y \<Rightarrow> Some (f_round fp y n))"

text \<open>
  A row of a \<^verbatim>\<open>LEFT JOIN\<close>: the matches of the right side, or one all-NULL row
  when there is none.
\<close>

definition left_join :: "'a list \<Rightarrow> 'a option list" where
  "left_join ms = (if ms = [] then [None] else map Some ms)"

text \<open>A column of a nullable record: \<^verbatim>\<open>c.customer_tier\<close>, \<^verbatim>\<open>item.quantity\<close>.\<close>

definition col :: "'r option \<Rightarrow> ('r \<Rightarrow> 'a option) \<Rightarrow> 'a option" where
  "col r f = (case r of None \<Rightarrow> None | Some x \<Rightarrow> f x)"

subsection \<open>Tables\<close>

text \<open>The schema of \<^verbatim>\<open>staging_orders\<close>, as \<^verbatim>\<open>schema_fields\<close> gives it.\<close>

record line_item =
  product_id :: "string option"
  quantity :: "int option"
  unit_price :: "rat option"

record shipping_address =
  street :: "string option"
  city :: "string option"
  state :: "string option"
  zipcode :: "string option"
  country :: "string option"

record staged_order =
  order_id :: string
  customer_id :: string
  order_timestamp :: int
  items :: "line_item list"
  total_amount :: rat
  payment_status :: "string option"
  shipping_address :: "shipping_address option"

text \<open>
  The dimension tables are created outside the DAG; only the columns the insert reads are
  kept. A table has no key constraint, so both are lists of rows.
\<close>

record dim_customer =
  c_customer_id :: string
  c_customer_tier :: "string option"

record dim_product =
  p_product_id :: string
  p_product_name :: "string option"
  p_category :: "string option"

text \<open>The column list of the insert into \<^verbatim>\<open>fact_orders\<close>.\<close>

record fact_order =
  f_order_id :: string
  f_customer_id :: string
  customer_tier :: string
  f_order_timestamp :: int
  order_date :: int
  order_hour :: int
  f_product_id :: "string option"
  product_name :: "string option"
  category :: "string option"
  f_quantity :: "int option"
  f_unit_price :: "rat option"
  line_total :: "rat option"
  f_total_amount :: rat
  f_payment_status :: "string option"
  f_city :: "string option"
  f_state :: "string option"
  f_country :: "string option"
  region :: string

record quality_check =
  check_id :: string
  check_timestamp :: int
  check_type :: string
  q_order_id :: string
  issue_description :: "string option"
  severity :: string

record hourly_metric =
  metric_hour :: int
  total_orders :: nat
  total_revenue :: rat
  avg_order_value :: rat
  unique_customers :: nat
  updated_at :: int

text \<open>
  An object of the bucket: its name and what the load job parses out of it, \<open>None\<close>
  when a record of the object does not fit the schema.
\<close>

type_synonym blob = "string \<times> staged_order list option"

subsection \<open>Task 1: \<^verbatim>\<open>check_new_files\<close>\<close>

text \<open>
  The sensor succeeds as soon as the listing of the bucket under the prefix is not
  empty; when it stays empty for the ten minutes of \<^verbatim>\<open>timeout\<close> the task fails.
\<close>

definition list_blobs :: "string \<Rightarrow> blob list \<Rightarrow> blob list" where
  "list_blobs pre bucket = filter (\<lambda>b. prefix pre (fst b)) bucket"

definition check_new_files :: "blob list \<Rightarrow> bool" where
  "check_new_files bucket = (list_blobs GCS_ORDER_PREFIX bucket \<noteq> [])"

subsection \<open>Task 2: \<^verbatim>\<open>load_to_staging\<close>\<close>

datatype failure = SensorTimeout | LoadNotFound | LoadSchemaError | DuplicateOrders

text \<open>
  \<^verbatim>\<open>source_objects = ['landing/orders/*.json']\<close>: the star stands for any run of
  characters, so a name matches when it starts with the prefix and what follows the
  prefix ends in \<^verbatim>\<open>.json\<close>.
\<close>

definition source_objects :: "string \<Rightarrow> bool" where
  "source_objects name =
     (prefix GCS_ORDER_PREFIX name \<and> suffix ''.json'' (drop (length GCS_ORDER_PREFIX) name))"

definition load_set :: "blob list \<Rightarrow> blob list" where
  "load_set bucket = filter (\<lambda>b. source_objects (fst b)) bucket"

text \<open>
  The load job is all or nothing: it fails when no object matches or when a record does
  not fit the schema, and otherwise appends every record (\<^verbatim>\<open>WRITE_APPEND\<close>).
\<close>

definition load_to_staging :: "blob list \<Rightarrow> staged_order list \<Rightarrow> failure + staged_order list" where
  "load_to_staging bucket staging =
     (let objs = load_set bucket in
      if objs = [] then Inl LoadNotFound
      else if list_ex (\<lambda>b. snd b = None) objs then Inl LoadSchemaError
      else Inr (staging @ concat (map (\<lambda>b. case snd b of None \<Rightarrow> [] | Some rs \<Rightarrow> rs) objs)))"

subsection \<open>Task 3: \<^verbatim>\<open>check_duplicates\<close>\<close>

text \<open>\<^verbatim>\<open>WHERE DATE(order_timestamp) = CURRENT_DATE()\<close>, the filter of tasks 3 to 5.\<close>

definition todays :: "int \<Rightarrow> staged_order list \<Rightarrow> staged_order list" where
  "todays now staging = filter (\<lambda>r. DATE (order_timestamp r) = DATE now) staging"

text \<open>The inner query: one row per \<^verbatim>\<open>order_id\<close> whose group has more than one row.\<close>

definition duplicate_groups :: "int \<Rightarrow> staged_order list \<Rightarrow> (string \<times> nat) list" where
  "duplicate_groups now staging =
     (let w = todays now staging in
      filter (\<lambda>g. snd g > 1)
        (map (\<lambda>k. (k, length (filter (\<lambda>r. order_id r = k) w))) (remdups (map order_id w))))"

text \<open>
  The check operator fails the task when the first row of the result holds a false
  value; the result is the one row \<^verbatim>\<open>COUNT(*) = 0\<close>.
\<close>

definition check_duplicates :: "int \<Rightarrow> staged_order list \<Rightarrow> bool" where
  "check_duplicates now staging = (length (duplicate_groups now staging) = 0)"

subsection \<open>Task 4: \<^verbatim>\<open>check_amount_mismatch\<close>\<close>

definition calculated_total :: "float_ops \<Rightarrow> staged_order \<Rightarrow> rat option" where
  "calculated_total fp r =
     sql_round fp (sql_sum fp (map (\<lambda>i. sql_mul fp (quantity i) (unit_price i)) (items r))) 2"

text \<open>
  \<^verbatim>\<open>WHERE ABS(calculated_total - total_amount) > 0.01\<close>: a FLOAT64 difference
  against the FLOAT64 literal; a row whose comparison is NULL is not selected.
\<close>

definition amount_mismatch :: "float_ops \<Rightarrow> staged_order \<Rightarrow> bool" where
  "amount_mismatch fp r =
     (case calculated_total fp r of None \<Rightarrow> False
      | Some c \<Rightarrow> \<bar>f_sub fp c (total_amount r)\<bar> > fl64 (1 / 100))"

text \<open>
  \<^verbatim>\<open>CONCAT\<close> casts its FLOAT arguments to STRING; the cast is the parameter
  \<open>fmt\<close>. \<^verbatim>\<open>GENERATE_UUID()\<close> is the parameter \<open>uuid\<close>, the value it returns for
  the \<open>i\<close>-th selected row.
\<close>

definition describe_mismatch ::
  "float_ops \<Rightarrow> (rat \<Rightarrow> string) \<Rightarrow> staged_order \<Rightarrow> string option" where
  "describe_mismatch fp fmt r =
     (case calculated_total fp r of None \<Rightarrow> None
      | Some c \<Rightarrow> Some (''Calculated: '' @ fmt c @ '' vs Recorded: '' @ fmt (total_amount r)))"

definition mismatch_rows ::
  "float_ops \<Rightarrow> (rat \<Rightarrow> string) \<Rightarrow> (nat \<Rightarrow> string) \<Rightarrow> int \<Rightarrow> staged_order list \<Rightarrow>
   quality_check list" where
  "mismatch_rows fp fmt uuid now staging =
     map (\<lambda>(i, r).
           \<lparr>check_id = uuid i, check_timestamp = now, check_type = ''amount_mismatch'',
            q_order_id = order_id r, issue_description = describe_mismatch fp fmt r,
            severity = ''warning''\<rparr>)
       (enumerate 0 (filter (amount_mismatch fp) (todays now staging)))"

definition check_amount_mismatch ::
  "float_ops \<Rightarrow> (rat \<Rightarrow> string) \<Rightarrow> (nat \<Rightarrow> string) \<Rightarrow> int \<Rightarrow> staged_order list \<Rightarrow>
   quality_check list \<Rightarrow> quality_check list" where
  "check_amount_mismatch fp fmt uuid now staging checks =
     checks @ mismatch_rows fp fmt uuid now staging"

subsection \<open>Task 5: \<^verbatim>\<open>transform_to_fact\<close>\<close>

definition region_of :: "string option \<Rightarrow> string" where
  "region_of st =
     (case st of None \<Rightarrow> ''Other''
      | Some s \<Rightarrow>
          if s \<in> set [''CA'', ''OR'', ''WA''] then ''West''
          else if s \<in> set [''NY'', ''NJ'', ''PA''] then ''East''
          else if s \<in> set [''TX'', ''AZ'', ''NM''] then ''South''
          else ''Other'')"

text \<open>The select list, for one row of the join.\<close>

definition fact_row ::
  "float_ops \<Rightarrow> staged_order \<Rightarrow> line_item option \<Rightarrow> dim_customer option \<Rightarrow>
   dim_product option \<Rightarrow> fact_order" where
  "fact_row fp r item c p =
     \<lparr>f_order_id = order_id r,
      f_customer_id = customer_id r,
      customer_tier = (case col c c_customer_tier of None \<Rightarrow> ''bronze'' | Some t \<Rightarrow> t),
      f_order_timestamp = order_timestamp r,
      order_date = DATE (order_timestamp r),
      order_hour = EXTRACT_HOUR (order_timestamp r),
      f_product_id = col item product_id,
      product_name = col p p_product_name,
      category = col p p_category,
      f_quantity = col item quantity,
      f_unit_price = col item unit_price,
      line_total = sql_mul fp (col item quantity) (col item unit_price),
      f_total_amount = total_amount r,
      f_payment_status = payment_status r,
      f_city = col (shipping_address r) city,
      f_state = col (shipping_address r) state,
      f_country = col (shipping_address r) country,
      region = region_of (col (shipping_address r) state)\<rparr>"

text \<open>
  The three joins on one staged row: \<^verbatim>\<open>LEFT JOIN UNNEST(o.items)\<close>, then the
  customers with the order's \<^verbatim>\<open>customer_id\<close>, then the products with the item's
  \<^verbatim>\<open>product_id\<close> (a NULL \<^verbatim>\<open>product_id\<close> matches nothing).
\<close>

definition joined_rows ::
  "float_ops \<Rightarrow> dim_customer list \<Rightarrow> dim_product list \<Rightarrow> staged_order \<Rightarrow> fact_order list" where
  "joined_rows fp customers products r =
     concat (map (\<lambda>item.
       concat (map (\<lambda>c.
         map (\<lambda>p. fact_row fp r item c p)
           (left_join (filter (\<lambda>p. col item product_id = Some (p_product_id p)) products)))
         (left_join (filter (\<lambda>c. customer_id r = c_customer_id c) customers))))
       (left_join (items r)))"

text \<open>
  The \<^verbatim>\<open>WHERE\<close> clause: today's rows whose \<^verbatim>\<open>order_id\<close> no row of
  \<^verbatim>\<open>fact_orders\<close> carries.
\<close>

definition new_orders :: "int \<Rightarrow> staged_order list \<Rightarrow> fact_order list \<Rightarrow> staged_order list" where
  "new_orders now staging facts =
     filter (\<lambda>r. order_id r \<notin> set (map f_order_id facts)) (todays now staging)"

definition fact_select ::
  "float_ops \<Rightarrow> int \<Rightarrow> dim_customer list \<Rightarrow> dim_product list \<Rightarrow> staged_order list \<Rightarrow>
   fact_order list \<Rightarrow> fact_order list" where
  "fact_select fp now customers products staging facts =
     concat (map (joined_rows fp customers products) (new_orders now staging facts))"

definition transform_to_fact ::
  "float_ops \<Rightarrow> int \<Rightarrow> dim_customer list \<Rightarrow> dim_product list \<Rightarrow> staged_order list \<Rightarrow>
   fact_order list \<Rightarrow> fact_order list" where
  "transform_to_fact fp now customers products staging facts =
     facts @ fact_select fp now customers products staging facts"

subsection \<open>Task 6: \<^verbatim>\<open>update_hourly_agg\<close>\<close>

definition todays_facts :: "int \<Rightarrow> fact_order list \<Rightarrow> fact_order list" where
  "todays_facts now facts = filter (\<lambda>f. DATE (f_order_timestamp f) = DATE now) facts"

text \<open>
  One group of \<^verbatim>\<open>GROUP BY metric_hour\<close>, and the row the inner select makes of it.
  The aggregates range over the rows of \<^verbatim>\<open>fact_orders\<close>, and a group is never empty.
\<close>

definition hour_group :: "int \<Rightarrow> fact_order list \<Rightarrow> int \<Rightarrow> fact_order list" where
  "hour_group now facts h =
     filter (\<lambda>f. TIMESTAMP_TRUNC_HOUR (f_order_timestamp f) = h) (todays_facts now facts)"

definition hour_row :: "float_ops \<Rightarrow> int \<Rightarrow> fact_order list \<Rightarrow> int \<Rightarrow> hourly_metric" where
  "hour_row fp now facts h =
     (let g = hour_group now facts h in
      \<lparr>metric_hour = h,
       total_orders = length (remdups (map f_order_id g)),
       total_revenue = f_sum fp (map f_total_amount g),
       avg_order_value = f_avg fp (map f_total_amount g),
       unique_customers = length (remdups (map f_customer_id g)),
       updated_at = now\<rparr>)"

definition hourly_source :: "float_ops \<Rightarrow> int \<Rightarrow> fact_order list \<Rightarrow> hourly_metric list" where
  "hourly_source fp now facts =
     map (hour_row fp now facts)
       (remdups (map (\<lambda>f. TIMESTAMP_TRUNC_HOUR (f_order_timestamp f)) (todays_facts now facts)))"

text \<open>
  The \<^verbatim>\<open>MERGE\<close>: a row of the target whose hour the source has is updated in
  place, column by column; a row of the source whose hour the target lacks is inserted.
\<close>

definition merge_matched :: "int \<Rightarrow> hourly_metric list \<Rightarrow> hourly_metric \<Rightarrow> hourly_metric" where
  "merge_matched now src t =
     (case find (\<lambda>s. metric_hour t = metric_hour s) src of
        None \<Rightarrow> t
      | Some s \<Rightarrow>
          t\<lparr>total_orders := total_orders s, total_revenue := total_revenue s,
            avg_order_value := avg_order_value s, unique_customers := unique_customers s,
            updated_at := now\<rparr>)"

definition merge_not_matched :: "int \<Rightarrow> hourly_metric list \<Rightarrow> hourly_metric list \<Rightarrow> hourly_metric list" where
  "merge_not_matched now src agg =
     map (\<lambda>s. \<lparr>metric_hour = metric_hour s, total_orders = total_orders s,
                total_revenue = total_revenue s, avg_order_value = avg_order_value s,
                unique_customers = unique_customers s, updated_at = now\<rparr>)
       (filter (\<lambda>s. metric_hour s \<notin> set (map metric_hour agg)) src)"

definition update_hourly_agg ::
  "float_ops \<Rightarrow> int \<Rightarrow> fact_order list \<Rightarrow> hourly_metric list \<Rightarrow> hourly_metric list" where
  "update_hourly_agg fp now facts agg =
     (let src = hourly_source fp now facts in
      map (merge_matched now src) agg @ merge_not_matched now src agg)"

subsection \<open>Task 7: \<^verbatim>\<open>archive_files\<close>\<close>

text \<open>
  Python's \<^verbatim>\<open>str.replace\<close>: every occurrence of \<open>old\<close>, left to right and without
  overlap. With an empty \<open>old\<close> it puts \<open>new\<close> before each character and at the end.
\<close>

function str_replace :: "string \<Rightarrow> string \<Rightarrow> string \<Rightarrow> string" where
  "str_replace old new [] = (if old = [] then new else [])"
| "str_replace old new (c # cs) =
     (if old = [] then new @ c # str_replace old new cs
      else if prefix old (c # cs) then new @ str_replace old new (drop (length old) (c # cs))
      else c # str_replace old new cs)"
  by pat_completeness auto
termination
  by (relation "measure (\<lambda>(old, new, s). length s)") (auto simp: neq_Nil_conv)

text \<open>
  \<^verbatim>\<open>bucket.rename_blob\<close> copies the blob under the new name, replacing what that
  name held, and deletes the old name unless the two names are the same.
\<close>

definition rename_blob :: "blob \<Rightarrow> string \<Rightarrow> blob list \<Rightarrow> blob list" where
  "rename_blob b new_name bucket =
     (if new_name = fst b then bucket
      else (new_name, snd b) # filter (\<lambda>x. fst x \<noteq> fst b \<and> fst x \<noteq> new_name) bucket)"

definition new_name :: "string \<Rightarrow> string \<Rightarrow> string" where
  "new_name timestamp name = str_replace ''landing/'' (''archive/'' @ timestamp @ ''/'') name"

text \<open>
  The loop over the listing. \<open>timestamp\<close> is \<^verbatim>\<open>datetime.now().strftime(...)\<close>, taken
  once before the loop.
\<close>

definition archive_files :: "string \<Rightarrow> blob list \<Rightarrow> blob list" where
  "archive_files timestamp bucket =
     fold (\<lambda>b bkt. if suffix ''.json'' (fst b) then rename_blob b (new_name timestamp (fst b)) bkt
                     else bkt)
       (list_blobs GCS_ORDER_PREFIX bucket) bucket"

subsection \<open>The DAG\<close>

text \<open>
  What a run finds outside the tables: the FLOAT64 operations of the engine, the time at
  which each statement runs, the two functions of task 4, the timestamp of the archiver,
  and the objects that land in the bucket while the run is between the load job and the
  archiver.
\<close>

record run_context =
  float64 :: float_ops
  t_check_duplicates :: int
  t_check_amount_mismatch :: int
  cast_string :: "rat \<Rightarrow> string"
  generate_uuid :: "nat \<Rightarrow> string"
  t_transform_to_fact :: int
  t_update_hourly_agg :: int
  archive_timestamp :: string
  landed_meanwhile :: "blob list"

record warehouse =
  bucket :: "blob list"
  staging_orders :: "staged_order list"
  data_quality_checks :: "quality_check list"
  dim_customers :: "dim_customer list"
  dim_products :: "dim_product list"
  fact_orders :: "fact_order list"
  agg_hourly_metrics :: "hourly_metric list"

text \<open>An upload replaces the object of the same name.\<close>

definition upload :: "blob \<Rightarrow> blob list \<Rightarrow> blob list" where
  "upload b bkt = b # filter (\<lambda>x. fst x \<noteq> fst b) bkt"

text \<open>
  \<^verbatim>\<open>check_new_files >> load_to_staging >> [check_duplicates, check_amount_mismatch]\<close>
  and \<^verbatim>\<open>[check_duplicates, check_amount_mismatch] >> transform_to_fact >>
  update_hourly_agg >> archive_files_task\<close>, under the default trigger rule: a task runs
  when all the tasks before it have succeeded. The two checks both follow the load job
  and do not wait for each other, so the insert of task 4 runs whether or not task 3
  fails. A run returns the failure that stopped it, if any, and the state it leaves.
  A failed task is tried again (\<^verbatim>\<open>retries\<close>) on the same data, with the same
  outcome; the retries are left out.
\<close>

definition run_dag :: "run_context \<Rightarrow> warehouse \<Rightarrow> failure option \<times> warehouse" where
  "run_dag ctx w =
     (if \<not> check_new_files (bucket w) then (Some SensorTimeout, w)
      else case load_to_staging (bucket w) (staging_orders w) of
        Inl e \<Rightarrow> (Some e, w)
      | Inr staged \<Rightarrow>
          let w1 = w\<lparr>staging_orders := staged\<rparr>;
              w2 = w1\<lparr>data_quality_checks :=
                     check_amount_mismatch (float64 ctx) (cast_string ctx) (generate_uuid ctx)
                       (t_check_amount_mismatch ctx) staged (data_quality_checks w1)\<rparr>
          in if \<not> check_duplicates (t_check_duplicates ctx) staged
             then (Some DuplicateOrders, w2)
             else
               let w3 = w2\<lparr>fact_orders :=
                          transform_to_fact (float64 ctx) (t_transform_to_fact ctx)
                            (dim_customers w2) (dim_products w2) staged (fact_orders w2)\<rparr>;
                   w4 = w3\<lparr>agg_hourly_metrics :=
                          update_hourly_agg (float64 ctx) (t_update_hourly_agg ctx)
                            (fact_orders w3) (agg_hourly_metrics w3)\<rparr>;
                   w5 = w4\<lparr>bucket :=
                          archive_files (archive_timestamp ctx)
                            (fold upload (landed_meanwhile ctx) (bucket w4))\<rparr>
               in (None, w5))"

subsection \<open>Sample data\<close>

text \<open>
  Rows for the concrete runs below. The orders are placed at 10:05 on 2024-01-01 (UTC) and
  the statements run at 11:00 of the same day.
\<close>

definition t_order :: int where
  "t_order = 1704103500000000"

definition t_run :: int where
  "t_run = 1704106800000000"

definition sample_item :: "string \<Rightarrow> int \<Rightarrow> rat \<Rightarrow> line_item" where
  "sample_item pid q p = \<lparr>product_id = Some pid, quantity = Some q, unit_price = Some p\<rparr>"

definition sample_order :: "string \<Rightarrow> string \<Rightarrow> line_item list \<Rightarrow> rat \<Rightarrow> staged_order" where
  "sample_order oid cid its tot =
     \<lparr>order_id = oid, customer_id = cid, order_timestamp = t_order, items = its,
      total_amount = tot, payment_status = Some ''completed'',
      shipping_address =
        Some \<lparr>street = None, city = Some ''Houston'', state = Some ''TX'', zipcode = None,
              country = Some ''USA''\<rparr>\<rparr>"

definition O1 :: staged_order where
  "O1 = sample_order ''O1'' ''CUST-1'' [sample_item ''PROD-1'' 2 10, sample_item ''PROD-2'' 1 10] 30"

definition O2 :: staged_order where
  "O2 = sample_order ''O2'' ''CUST-2'' [sample_item ''PROD-3'' 1 60] 60"

definition O3 :: staged_order where
  "O3 = sample_order ''O3'' ''CUST-1'' [sample_item ''PROD-1'' 3 15] 50"

definition O5 :: staged_order where
  "O5 = sample_order ''O5'' ''CUST-2'' [] 50"

definition sample_context :: run_context where
  "sample_context =
     \<lparr>float64 = binary64, t_check_duplicates = t_run, t_check_amount_mismatch = t_run,
      cast_string = (\<lambda>x. ''<float>''), generate_uuid = (\<lambda>i. replicate (Suc i) CHR ''u''),
      t_transform_to_fact = t_run, t_update_hourly_agg = t_run,
      archive_timestamp = ''20240101_110000'', landed_meanwhile = []\<rparr>"

definition sample_warehouse :: "blob list \<Rightarrow> warehouse" where
  "sample_warehouse objs =
     \<lparr>bucket = objs, staging_orders = [], data_quality_checks = [], dim_customers = [],
      dim_products = [], fact_orders = [], agg_hourly_metrics = []\<rparr>"

definition sample_customers :: "dim_customer list" where
  "sample_customers =
     [\<lparr>c_customer_id = ''CUST-1'', c_customer_tier = Some ''gold''\<rparr>,
      \<lparr>c_customer_id = ''CUST-2'', c_customer_tier = None\<rparr>]"

definition sample_products :: "dim_product list" where
  "sample_products =
     [\<lparr>p_product_id = ''PROD-1'', p_product_name = Some ''Books Product 1'',
       p_category = Some ''Books''\<rparr>]"

definition sample_facts :: "fact_order list" where
  "sample_facts = transform_to_fact binary64 t_run [] [] [O1, O2] []"

definition stale_metric :: hourly_metric where
  "stale_metric =
     \<lparr>metric_hour = 1704103200000000, total_orders = 3, total_revenue = 150,
      avg_order_value = 50, unique_customers = 3, updated_at = 0\<rparr>"

definition O_yesterday :: staged_order where
  "O_yesterday = (sample_order ''O0'' ''CUST-1'' [sample_item ''PROD-1'' 1 10] 99)
     \<lparr>order_timestamp := t_order - 86400000000\<rparr>"

text \<open>A fact row of yesterday that carries the \<^verbatim>\<open>order_id\<close> of \<open>O1\<close>.\<close>

definition old_fact :: fact_order where
  "old_fact = fact_row binary64 (O1\<lparr>order_timestamp := t_order - 86400000000\<rparr>) None None None"

text \<open>
  An order of one item at 0.30 recorded with a total of 0.31, both as the load job reads
  them from their decimal text.
\<close>

definition O_cent :: staged_order where
  "O_cent = sample_order ''O6'' ''CUST-1'' [sample_item ''PROD-1'' 1 (fl64 (3 / 10))]
     (fl64 (31 / 100))"

text \<open>A cast that renders the two values of the samples, for the descriptions.\<close>

definition sample_cast :: "rat \<Rightarrow> string" where
  "sample_cast x = (if x = 45 then ''45.0'' else if x = 50 then ''50.0'' else ''?'')"


subsection \<open>The schedule\<close>

text \<open>
  \<^verbatim>\<open>schedule_interval='*/15 * * * *'\<close>: the runs follow one another, each starting
  from the state the run before it left, with the objects that have landed in between.
\<close>

fun runs :: "(blob list \<times> run_context) list \<Rightarrow> warehouse \<Rightarrow> warehouse" where
  "runs [] w = w"
| "runs ((landed, ctx) # rest) w =
     runs rest (snd (run_dag ctx (w\<lparr>bucket := fold upload landed (bucket w)\<rparr>)))"

text \<open>An object under the landing prefix that is no \<^verbatim>\<open>.json\<close> file.\<close>

definition readme :: blob where
  "readme = (''landing/orders/README.txt'', None)"

section \<open>Properties\<close>

subsection \<open>The joins of task 5\<close>

lemma left_join_nonempty: "left_join ms \<noteq> []"
  by (simp add: left_join_def)

lemma joined_rows_nonempty: "joined_rows fp customers products r \<noteq> []"
proof -
  obtain item where i: "item \<in> set (left_join (items r))"
    using left_join_nonempty[of "items r"] by (cases "left_join (items r)") auto
  obtain c where c: "c \<in> set (left_join (filter (\<lambda>c. customer_id r = c_customer_id c) customers))"
    using left_join_nonempty[of "filter (\<lambda>c. customer_id r = c_customer_id c) customers"]
    by (cases "left_join (filter (\<lambda>c. customer_id r = c_customer_id c) customers)") auto
  obtain p where p: "p \<in> set (left_join (filter (\<lambda>p. col item product_id = Some (p_product_id p)) products))"
    using left_join_nonempty[of "filter (\<lambda>p. col item product_id = Some (p_product_id p)) products"]
    by (cases "left_join (filter (\<lambda>p. col item product_id = Some (p_product_id p)) products)") auto
  have "fact_row fp r item c p \<in> set (joined_rows fp customers products r)"
    unfolding joined_rows_def using i c p by auto
  then show ?thesis by auto
qed

lemma joined_rows_order_id:
  "f \<in> set (joined_rows fp customers products r) \<Longrightarrow> f_order_id f = order_id r"
  by (auto simp: joined_rows_def fact_row_def)

lemma joined_rows_ids: "f_order_id ` set (joined_rows fp customers products r) = {order_id r}"
proof -
  obtain f where "f \<in> set (joined_rows fp customers products r)"
    using joined_rows_nonempty[of fp customers products r]
    by (cases "joined_rows fp customers products r") auto
  then show ?thesis
    using joined_rows_order_id[of _ fp customers products r] by auto
qed

lemma fact_select_order_ids:
  "set (map f_order_id (fact_select fp now customers products staging facts)) =
   set (map order_id (new_orders now staging facts))"
  by (simp add: fact_select_def image_UN joined_rows_ids) blast

lemma todays_cong: "DATE now' = DATE now \<Longrightarrow> todays now' staging = todays now staging"
  by (simp add: todays_def)

subsection \<open>Re-running the insert\<close>

text \<open>
  Claim C1. When the insert of task 5 has run over a window, running it again over the
  same staged rows on the same day selects no row, so the fact store stays as the first
  run left it; and the rows a run selects never carry an \<^verbatim>\<open>order_id\<close> that the fact
  store held before it.
\<close>

theorem transform_to_fact_idempotent:
  assumes "DATE now' = DATE now"
  shows "fact_select fp' now' customers' products' staging
           (transform_to_fact fp now customers products staging facts) = [] \<and>
         transform_to_fact fp' now' customers' products' staging
           (transform_to_fact fp now customers products staging facts) =
         transform_to_fact fp now customers products staging facts \<and>
         set (map f_order_id (fact_select fp now customers products staging facts)) \<inter>
           set (map f_order_id facts) = {}"
proof -
  let ?F = "transform_to_fact fp now customers products staging facts"
  have ids: "set (map f_order_id ?F) =
      set (map f_order_id facts) \<union> set (map order_id (new_orders now staging facts))"
    using fact_select_order_ids[of fp now customers products staging facts]
    by (simp add: transform_to_fact_def)
  have "new_orders now' staging ?F = []"
  proof -
    have "\<And>r. r \<in> set (todays now staging) \<Longrightarrow> order_id r \<in> set (map f_order_id ?F)"
      unfolding ids by (auto simp: new_orders_def)
    then show ?thesis
      unfolding new_orders_def[of now' staging ?F] todays_cong[OF assms] filter_empty_conv
      by blast
  qed
  then have none: "fact_select fp' now' customers' products' staging ?F = []"
    by (simp add: fact_select_def)
  then have same: "transform_to_fact fp' now' customers' products' staging ?F = ?F"
    by (simp add: transform_to_fact_def[of fp' now' customers' products' staging ?F])
  have fresh: "set (map f_order_id (fact_select fp now customers products staging facts)) \<inter>
      set (map f_order_id facts) = {}"
    unfolding fact_select_order_ids by (auto simp: new_orders_def)
  from none same fresh show ?thesis by blast
qed

theorem transform_to_fact_idempotent_witness:
  "DATE (t_run + 900000000) = DATE t_run \<and>
   length (transform_to_fact binary64 t_run [] [] [O1] []) = 2 \<and>
   fact_select binary64 (t_run + 900000000) [] [] [O1] (transform_to_fact binary64 t_run [] [] [O1] []) = [] \<and>
   transform_to_fact binary64 (t_run + 900000000) [] [] [O1] (transform_to_fact binary64 t_run [] [] [O1] []) =
     transform_to_fact binary64 t_run [] [] [O1] []"
proof -
  have d: "DATE (t_run + 900000000) = DATE t_run"
    by (simp add: DATE_def t_run_def)
  have l: "length (transform_to_fact binary64 t_run [] [] [O1] []) = 2"
    by (simp add: transform_to_fact_def fact_select_def new_orders_def todays_def DATE_def
        t_run_def t_order_def O1_def sample_order_def joined_rows_def left_join_def)
  show ?thesis
    using d l transform_to_fact_idempotent[OF d, of binary64 "[]" "[]" "[O1]" binary64 "[]" "[]" "[]"] by simp
qed

subsection \<open>The duplicate check\<close>

lemma distinct_map_count:
  "distinct (map f w) \<longleftrightarrow> (\<forall>k. length (filter (\<lambda>r. f r = k) w) \<le> 1)"
proof (induction w)
  case Nil
  then show ?case by simp
next
  case (Cons a w)
  have mem: "f a \<in> f ` set w \<longleftrightarrow> length (filter (\<lambda>r. f r = f a) w) \<noteq> 0"
    by (simp add: filter_empty_conv image_iff) metis
  show ?case
  proof
    assume d: "distinct (map f (a # w))"
    then have "length (filter (\<lambda>r. f r = f a) w) = 0" using mem by simp
    moreover have "\<forall>k. length (filter (\<lambda>r. f r = k) w) \<le> 1" using d Cons by simp
    ultimately show "\<forall>k. length (filter (\<lambda>r. f r = k) (a # w)) \<le> 1" by simp
  next
    assume c: "\<forall>k. length (filter (\<lambda>r. f r = k) (a # w)) \<le> 1"
    then have "length (filter (\<lambda>r. f r = f a) (a # w)) \<le> 1" by blast
    then have "f a \<notin> f ` set w" using mem by simp
    moreover have "\<forall>k. length (filter (\<lambda>r. f r = k) w) \<le> 1"
    proof
      fix k show "length (filter (\<lambda>r. f r = k) w) \<le> 1"
        using c[rule_format, of k] by (simp split: if_splits)
    qed
    ultimately show "distinct (map f (a # w))" using Cons by simp
  qed
qed

lemma check_duplicates_iff:
  "check_duplicates now staging \<longleftrightarrow> distinct (map order_id (todays now staging))"
proof -
  let ?w = "todays now staging"
  have "check_duplicates now staging \<longleftrightarrow>
        (\<forall>k \<in> set (map order_id ?w). length (filter (\<lambda>r. order_id r = k) ?w) \<le> 1)"
    by (auto simp: check_duplicates_def duplicate_groups_def Let_def filter_empty_conv not_less)
  also have "\<dots> \<longleftrightarrow> (\<forall>k. length (filter (\<lambda>r. order_id r = k) ?w) \<le> 1)"
  proof -
    have "\<And>k. k \<notin> set (map order_id ?w) \<Longrightarrow> length (filter (\<lambda>r. order_id r = k) ?w) = 0"
      by (auto simp: filter_empty_conv)
    then show ?thesis by (metis le0)
  qed
  finally show ?thesis by (simp add: distinct_map_count)
qed

subsection \<open>The outcomes of a run\<close>

lemma run_dag_cases:
  "run_dag ctx w = (Some SensorTimeout, w) \<and> \<not> check_new_files (bucket w) \<or>
   (\<exists>e. run_dag ctx w = (Some e, w) \<and> check_new_files (bucket w) \<and>
      load_to_staging (bucket w) (staging_orders w) = Inl e) \<or>
   (\<exists>staged. check_new_files (bucket w) \<and>
      load_to_staging (bucket w) (staging_orders w) = Inr staged \<and>
      \<not> check_duplicates (t_check_duplicates ctx) staged \<and>
      run_dag ctx w = (Some DuplicateOrders,
        w\<lparr>staging_orders := staged,
          data_quality_checks := check_amount_mismatch (float64 ctx) (cast_string ctx) (generate_uuid ctx)
             (t_check_amount_mismatch ctx) staged (data_quality_checks w)\<rparr>)) \<or>
   (\<exists>staged. check_new_files (bucket w) \<and>
      load_to_staging (bucket w) (staging_orders w) = Inr staged \<and>
      check_duplicates (t_check_duplicates ctx) staged \<and>
      fst (run_dag ctx w) = None \<and>
      staging_orders (snd (run_dag ctx w)) = staged \<and>
      data_quality_checks (snd (run_dag ctx w)) =
        check_amount_mismatch (float64 ctx) (cast_string ctx) (generate_uuid ctx)
             (t_check_amount_mismatch ctx) staged (data_quality_checks w) \<and>
      fact_orders (snd (run_dag ctx w)) =
        transform_to_fact (float64 ctx) (t_transform_to_fact ctx) (dim_customers w) (dim_products w) staged
          (fact_orders w) \<and>
      agg_hourly_metrics (snd (run_dag ctx w)) =
        update_hourly_agg (float64 ctx) (t_update_hourly_agg ctx) (fact_orders (snd (run_dag ctx w)))
          (agg_hourly_metrics w) \<and>
      bucket (snd (run_dag ctx w)) =
        archive_files (archive_timestamp ctx) (fold upload (landed_meanwhile ctx) (bucket w)) \<and>
      dim_customers (snd (run_dag ctx w)) = dim_customers w \<and>
      dim_products (snd (run_dag ctx w)) = dim_products w)"
  by (cases "load_to_staging (bucket w) (staging_orders w)")
     (simp_all add: run_dag_def Let_def)

lemma sample_sensor: "check_new_files ((''landing/orders/a.json'', c) # rest)"
  by (simp add: check_new_files_def list_blobs_def GCS_ORDER_PREFIX_def)

lemma sample_load:
  "load_to_staging [(''landing/orders/a.json'', Some rs)] staging = Inr (staging @ rs)"
  by (simp add: load_to_staging_def load_set_def source_objects_def GCS_ORDER_PREFIX_def
      suffix_to_prefix)

lemma sample_dates: "DATE t_order = DATE t_run"
  by (simp add: DATE_def t_order_def t_run_def)

text \<open>
  Claim C2. When the staged rows of the window hold an \<^verbatim>\<open>order_id\<close> more than once,
  the run fails: the fact store, the aggregates and the bucket are what they were
  before the run, and a run whose sensor and load job succeeded is stopped by the
  duplicate check itself, which does not pass.
\<close>

theorem duplicate_orders_fail_run:
  assumes "\<not> distinct (map order_id
             (todays (t_check_duplicates ctx) (staging_orders (snd (run_dag ctx w)))))"
  shows "fst (run_dag ctx w) \<noteq> None \<and>
         fact_orders (snd (run_dag ctx w)) = fact_orders w \<and>
         agg_hourly_metrics (snd (run_dag ctx w)) = agg_hourly_metrics w \<and>
         bucket (snd (run_dag ctx w)) = bucket w \<and>
         (check_new_files (bucket w) \<and>
          load_to_staging (bucket w) (staging_orders w) = Inr staged \<longrightarrow>
          \<not> check_duplicates (t_check_duplicates ctx) staged \<and>
          fst (run_dag ctx w) = Some DuplicateOrders)"
  using run_dag_cases[of ctx w] assms
  by (elim disjE exE conjE) (auto simp: check_duplicates_iff)

theorem duplicate_orders_fail_run_witness:
  "\<not> distinct (map order_id (todays (t_check_duplicates sample_context)
       (staging_orders (snd (run_dag sample_context
          (sample_warehouse [(''landing/orders/a.json'', Some [O1, O2, O2])])))))) \<and>
   fst (run_dag sample_context (sample_warehouse [(''landing/orders/a.json'', Some [O1, O2, O2])]))
     = Some DuplicateOrders \<and>
   fact_orders (snd (run_dag sample_context
     (sample_warehouse [(''landing/orders/a.json'', Some [O1, O2, O2])]))) = []"
proof -
  let ?w = "sample_warehouse [(''landing/orders/a.json'', Some [O1, O2, O2])]"
  have s: "check_new_files (bucket ?w)"
    by (simp add: sample_warehouse_def sample_sensor)
  have l: "load_to_staging (bucket ?w) (staging_orders ?w) = Inr [O1, O2, O2]"
    by (simp add: sample_warehouse_def sample_load)
  have t: "todays t_run [O1, O2, O2] = [O1, O2, O2]"
    by (simp add: todays_def O1_def O2_def sample_order_def sample_dates)
  have ids: "map order_id [O1, O2, O2] = [''O1'', ''O2'', ''O2'']"
    by (simp add: O1_def O2_def sample_order_def)
  have c: "\<not> check_duplicates (t_check_duplicates sample_context) [O1, O2, O2]"
    unfolding check_duplicates_iff by (simp add: sample_context_def t ids)
  have st: "staging_orders (snd (run_dag sample_context ?w)) = [O1, O2, O2]"
    using s l c by (simp add: run_dag_def Let_def)
  have d: "\<not> distinct (map order_id (todays (t_check_duplicates sample_context)
       (staging_orders (snd (run_dag sample_context ?w)))))"
    unfolding st using c by (simp add: check_duplicates_iff)
  have f: "fact_orders ?w = []" by (simp add: sample_warehouse_def)
  show ?thesis
    using d s l f duplicate_orders_fail_run[OF d, of "[O1, O2, O2]"] by simp
qed

subsection \<open>The consistency check\<close>

text \<open>
  Binary64 at work: the literal \<^verbatim>\<open>0.01\<close> lies a little above one hundredth, an
  INT64 beyond 53 bits loses its last bit when it is converted, and the difference of 0.31
  and 0.30 exceeds the literal, so that an order of one item at 0.30 recorded with 0.31 is
  a mismatch although the decimals are one cent apart.
\<close>

lemma literal_one_cent: "fl64 (1 / 100) = 5764607523034235 / 576460752303423488"
  by code_simp

lemma to_float_rounds: "to_float binary64 9007199254740993 = 9007199254740992"
  by code_simp

lemma one_cent_apart:
  "calculated_total binary64 O_cent = Some (fl64 (3 / 10)) \<and> total_amount O_cent = fl64 (31 / 100) \<and>
   \<bar>f_sub binary64 (fl64 (3 / 10)) (fl64 (31 / 100))\<bar> = 45035996273705 / 4503599627370496 \<and>
   amount_mismatch binary64 O_cent"
  by code_simp

lemma calculated_total_O3: "calculated_total binary64 O3 = Some 45"
  by code_simp

lemma amount_mismatch_O3: "amount_mismatch binary64 O3"
  by code_simp

lemma zero_items_null: "items r = [] \<Longrightarrow> calculated_total fp r = None"
  by (simp add: calculated_total_def sql_sum_def sql_round_def)

text \<open>
  Claim C5, as the code has it. For a staged order with no line item the sum ranges over no
  row, so \<^verbatim>\<open>calculated_total\<close> is NULL and not 0; the comparison with
  \<^verbatim>\<open>total_amount\<close> is then NULL, the row is not selected, and the check records
  the same findings as if the order were not staged, whatever its \<^verbatim>\<open>total_amount\<close>.
\<close>

theorem zero_items_total_is_null:
  assumes "items r = []"
  shows "calculated_total fp r = None \<and> \<not> amount_mismatch fp r \<and>
         mismatch_rows fp fmt uuid now (xs @ r # ys) = mismatch_rows fp fmt uuid now (xs @ ys)"
  using assms by (simp add: zero_items_null amount_mismatch_def mismatch_rows_def todays_def)

theorem zero_items_total_is_null_witness:
  "items O5 = [] \<and> calculated_total binary64 O5 = None \<and> \<not> amount_mismatch binary64 O5 \<and>
   mismatch_rows binary64 (\<lambda>x. ''<float>'') (\<lambda>i. ''uuid'') t_run [O3, O5] =
   mismatch_rows binary64 (\<lambda>x. ''<float>'') (\<lambda>i. ''uuid'') t_run [O3]"
proof -
  have e: "items O5 = []" by (simp add: O5_def sample_order_def)
  show ?thesis
    using e zero_items_total_is_null[OF e, of binary64 "\<lambda>x. ''<float>''" "\<lambda>i. ''uuid''" t_run "[O3]" "[]"]
    by simp
qed

text \<open>
  The order \<open>O5\<close> has no line item and a \<^verbatim>\<open>total_amount\<close> of 50: its
  \<^verbatim>\<open>calculated_total\<close> is not 0 and the check, run over it alone, records nothing.
\<close>

theorem zero_items_counterexample:
  "items O5 = [] \<and> \<bar>0 - total_amount O5\<bar> > 1 / 100 \<and>
   todays t_run [O5] = [O5] \<and>
   calculated_total binary64 O5 \<noteq> Some 0 \<and>
   check_amount_mismatch binary64 (\<lambda>x. ''<float>'') (\<lambda>i. ''uuid'') t_run [O5] [] = []"
proof -
  have e: "items O5 = []" by (simp add: O5_def sample_order_def)
  have t: "todays t_run [O5] = [O5]"
    by (simp add: todays_def O5_def sample_order_def sample_dates)
  have a: "\<bar>0 - total_amount O5\<bar> > 1 / 100" by (simp add: O5_def sample_order_def)
  have m: "\<not> amount_mismatch binary64 O5" by (simp add: amount_mismatch_def zero_items_null[OF e])
  show ?thesis
    using e t a m by (simp add: zero_items_null check_amount_mismatch_def mismatch_rows_def)
qed

lemma length_filter_enumerate:
  "length (filter (\<lambda>(i, r). P r) (enumerate n xs)) = length (filter P xs)"
  by (induction xs arbitrary: n) auto

lemma mismatch_rows_count:
  "length (filter (\<lambda>q. q_order_id q = k) (mismatch_rows fp fmt uuid now staging)) =
   length (filter (\<lambda>r. amount_mismatch fp r \<and> order_id r = k) (todays now staging))"
proof -
  let ?sel = "filter (amount_mismatch fp) (todays now staging)"
  have "filter (\<lambda>q. q_order_id q = k) (mismatch_rows fp fmt uuid now staging) =
        map (\<lambda>(i, r).
           \<lparr>check_id = uuid i, check_timestamp = now, check_type = ''amount_mismatch'',
            q_order_id = order_id r, issue_description = describe_mismatch fp fmt r,
            severity = ''warning''\<rparr>)
          (filter (\<lambda>(i, r). order_id r = k) (enumerate 0 ?sel))"
    unfolding mismatch_rows_def filter_map by (simp add: comp_def case_prod_unfold)
  then have "length (filter (\<lambda>q. q_order_id q = k) (mismatch_rows fp fmt uuid now staging)) =
        length (filter (\<lambda>r. order_id r = k) ?sel)"
    by (simp add: length_filter_enumerate)
  also have "filter (\<lambda>r. order_id r = k) ?sel =
        filter (\<lambda>r. amount_mismatch fp r \<and> order_id r = k) (todays now staging)"
    by (simp add: conj_commute)
  finally show ?thesis .
qed

lemma mismatch_rows_fields:
  assumes "q \<in> set (mismatch_rows fp fmt uuid now staging)"
  shows "check_type q = ''amount_mismatch'' \<and> severity q = ''warning'' \<and>
         check_timestamp q = now \<and>
         (\<exists>r c. r \<in> set (todays now staging) \<and> calculated_total fp r = Some c \<and>
            \<bar>f_sub fp c (total_amount r)\<bar> > fl64 (1 / 100) \<and> q_order_id q = order_id r \<and>
            issue_description q =
              Some (''Calculated: '' @ fmt c @ '' vs Recorded: '' @ fmt (total_amount r)))"
proof -
  obtain i r where ir: "(i, r) \<in> set (enumerate 0 (filter (amount_mismatch fp) (todays now staging)))"
    and q: "q = \<lparr>check_id = uuid i, check_timestamp = now, check_type = ''amount_mismatch'',
            q_order_id = order_id r, issue_description = describe_mismatch fp fmt r,
            severity = ''warning''\<rparr>"
    using assms by (auto simp: mismatch_rows_def)
  from ir have "r \<in> set (filter (amount_mismatch fp) (todays now staging))"
    by (metis in_set_zipE enumerate_eq_zip)
  then have r: "r \<in> set (todays now staging)" "amount_mismatch fp r"
    by auto
  from r(2) obtain c where c: "calculated_total fp r = Some c" "\<bar>f_sub fp c (total_amount r)\<bar> > fl64 (1 / 100)"
    by (auto simp: amount_mismatch_def split: option.splits)
  have "issue_description q =
      Some (''Calculated: '' @ fmt c @ '' vs Recorded: '' @ fmt (total_amount r))"
    by (simp add: q describe_mismatch_def c)
  with q r c show ?thesis by auto
qed

lemma mismatch_once:
  assumes "distinct (map order_id (todays now staging))"
    and "r \<in> set (todays now staging)" and "amount_mismatch fp r"
  shows "length (filter (\<lambda>q. q_order_id q = order_id r) (mismatch_rows fp fmt uuid now staging)) = 1"
proof -
  let ?w = "todays now staging"
  have "\<And>ws. length (filter (\<lambda>x. amount_mismatch fp x \<and> order_id x = order_id r) ws) \<le>
        length (filter (\<lambda>x. order_id x = order_id r) ws)"
  proof -
    fix ws show "length (filter (\<lambda>x. amount_mismatch fp x \<and> order_id x = order_id r) ws) \<le>
        length (filter (\<lambda>x. order_id x = order_id r) ws)"
      by (induction ws) auto
  qed
  then have le: "length (filter (\<lambda>x. amount_mismatch fp x \<and> order_id x = order_id r) ?w) \<le>
        length (filter (\<lambda>x. order_id x = order_id r) ?w)" .
  have "length (filter (\<lambda>x. order_id x = order_id r) ?w) \<le> 1"
    using assms(1) distinct_map_count[of order_id ?w] by blast
  moreover have "length (filter (\<lambda>x. amount_mismatch fp x \<and> order_id x = order_id r) ?w) \<noteq> 0"
    using assms(2,3) by (auto simp: filter_empty_conv)
  ultimately have "length (filter (\<lambda>x. amount_mismatch fp x \<and> order_id x = order_id r) ?w) = 1"
    using le by linarith
  then show ?thesis by (simp add: mismatch_rows_count)
qed

lemma run_dag_success_iff:
  "fst (run_dag ctx w) = None \<longleftrightarrow>
   check_new_files (bucket w) \<and>
   (\<exists>staged. load_to_staging (bucket w) (staging_orders w) = Inr staged \<and>
      check_duplicates (t_check_duplicates ctx) staged)"
  using run_dag_cases[of ctx w] by (elim disjE exE conjE) auto

lemma run_dag_checks:
  assumes "check_new_files (bucket w)"
    and "load_to_staging (bucket w) (staging_orders w) = Inr staged"
  shows "data_quality_checks (snd (run_dag ctx w)) =
         data_quality_checks w @
         mismatch_rows (float64 ctx) (cast_string ctx) (generate_uuid ctx) (t_check_amount_mismatch ctx) staged"
  using run_dag_cases[of ctx w] assms
  by (elim disjE exE conjE) (auto simp: check_amount_mismatch_def)

lemma run_dag_reaches_fact:
  assumes "check_new_files (bucket w)"
    and "load_to_staging (bucket w) (staging_orders w) = Inr staged"
    and "check_duplicates (t_check_duplicates ctx) staged"
  shows "fst (run_dag ctx w) = None \<and>
         fact_orders (snd (run_dag ctx w)) =
           transform_to_fact (float64 ctx) (t_transform_to_fact ctx) (dim_customers w) (dim_products w) staged
             (fact_orders w)"
  using run_dag_cases[of ctx w] assms by (elim disjE exE conjE) auto

lemma mismatch_rows_again:
  assumes "DATE now' = DATE now"
  shows "length (filter (\<lambda>q. q_order_id q = k)
           (check_amount_mismatch fp fmt uuid' now' staging
              (check_amount_mismatch fp fmt uuid now staging checks))) =
         length (filter (\<lambda>q. q_order_id q = k) checks) +
         2 * length (filter (\<lambda>r. amount_mismatch fp r \<and> order_id r = k) (todays now staging))"
  by (simp add: check_amount_mismatch_def mismatch_rows_count todays_cong[OF assms])

text \<open>
  Claim C3, as the code has it. Each execution of the check appends one finding per staged
  row of the window that its \<^verbatim>\<open>WHERE\<close> clause selects: a row whose rounded
  line-item sum is not NULL and whose FLOAT64 difference from \<^verbatim>\<open>total_amount\<close>
  exceeds the literal \<^verbatim>\<open>0.01\<close> in absolute value. Within one execution the findings
  of an \<^verbatim>\<open>order_id\<close> are as many as its selected staged rows, exactly one when the
  \<^verbatim>\<open>order_id\<close>s of the window are distinct; an execution later on the same day
  that finds the rows still staged appends as many again. Each finding has the type
  \<^verbatim>\<open>amount_mismatch\<close>, the severity \<^verbatim>\<open>warning\<close> and a description made of both
  values. The check itself never fails: the findings are appended as soon as the load job
  has succeeded, and the run reaches the insert into \<^verbatim>\<open>fact_orders\<close> exactly when
  the sensor, the load job and the duplicate check succeed.
\<close>

theorem amount_mismatch_recorded:
  "length (filter (\<lambda>q. q_order_id q = k) (mismatch_rows fp fmt uuid now staging)) =
     length (filter (\<lambda>r. amount_mismatch fp r \<and> order_id r = k) (todays now staging)) \<and>
   (distinct (map order_id (todays now staging)) \<and> r \<in> set (todays now staging) \<and>
    amount_mismatch fp r \<longrightarrow>
      length (filter (\<lambda>q. q_order_id q = order_id r) (mismatch_rows fp fmt uuid now staging)) = 1) \<and>
   (\<forall>q \<in> set (mismatch_rows fp fmt uuid now staging).
      check_type q = ''amount_mismatch'' \<and> severity q = ''warning'' \<and>
      check_timestamp q = now \<and>
      (\<exists>r c. r \<in> set (todays now staging) \<and> calculated_total fp r = Some c \<and>
         \<bar>f_sub fp c (total_amount r)\<bar> > fl64 (1 / 100) \<and> q_order_id q = order_id r \<and>
         issue_description q =
           Some (''Calculated: '' @ fmt c @ '' vs Recorded: '' @ fmt (total_amount r)))) \<and>
   (DATE now' = DATE now \<longrightarrow>
      length (filter (\<lambda>q. q_order_id q = k)
        (check_amount_mismatch fp fmt uuid' now' staging
           (check_amount_mismatch fp fmt uuid now staging checks))) =
      length (filter (\<lambda>q. q_order_id q = k) checks) +
      2 * length (filter (\<lambda>r. amount_mismatch fp r \<and> order_id r = k) (todays now staging))) \<and>
   (check_new_files (bucket w) \<and>
    load_to_staging (bucket w) (staging_orders w) = Inr staged \<longrightarrow>
      data_quality_checks (snd (run_dag ctx w)) =
        data_quality_checks w @
        mismatch_rows (float64 ctx) (cast_string ctx) (generate_uuid ctx) (t_check_amount_mismatch ctx) staged) \<and>
   (check_new_files (bucket w) \<and>
    load_to_staging (bucket w) (staging_orders w) = Inr staged \<and>
    check_duplicates (t_check_duplicates ctx) staged \<longrightarrow>
      fst (run_dag ctx w) = None \<and>
      fact_orders (snd (run_dag ctx w)) =
        transform_to_fact (float64 ctx) (t_transform_to_fact ctx) (dim_customers w) (dim_products w) staged
          (fact_orders w)) \<and>
   (fst (run_dag ctx w) = None \<longleftrightarrow>
      check_new_files (bucket w) \<and>
      (\<exists>s. load_to_staging (bucket w) (staging_orders w) = Inr s \<and>
         check_duplicates (t_check_duplicates ctx) s))"
proof (intro conjI)
  show "length (filter (\<lambda>q. q_order_id q = k) (mismatch_rows fp fmt uuid now staging)) =
     length (filter (\<lambda>r. amount_mismatch fp r \<and> order_id r = k) (todays now staging))"
    by (rule mismatch_rows_count)
  show "distinct (map order_id (todays now staging)) \<and> r \<in> set (todays now staging) \<and>
    amount_mismatch fp r \<longrightarrow>
      length (filter (\<lambda>q. q_order_id q = order_id r) (mismatch_rows fp fmt uuid now staging)) = 1"
    using mismatch_once[of now staging r fp fmt uuid] by blast
  show "\<forall>q \<in> set (mismatch_rows fp fmt uuid now staging).
      check_type q = ''amount_mismatch'' \<and> severity q = ''warning'' \<and>
      check_timestamp q = now \<and>
      (\<exists>r c. r \<in> set (todays now staging) \<and> calculated_total fp r = Some c \<and>
         \<bar>f_sub fp c (total_amount r)\<bar> > fl64 (1 / 100) \<and> q_order_id q = order_id r \<and>
         issue_description q =
           Some (''Calculated: '' @ fmt c @ '' vs Recorded: '' @ fmt (total_amount r)))"
    using mismatch_rows_fields[of _ fp fmt uuid now staging] by blast
  show "DATE now' = DATE now \<longrightarrow>
      length (filter (\<lambda>q. q_order_id q = k)
        (check_amount_mismatch fp fmt uuid' now' staging
           (check_amount_mismatch fp fmt uuid now staging checks))) =
      length (filter (\<lambda>q. q_order_id q = k) checks) +
      2 * length (filter (\<lambda>r. amount_mismatch fp r \<and> order_id r = k) (todays now staging))"
    using mismatch_rows_again[of now' now k fp fmt uuid' staging uuid checks] by blast
  show "check_new_files (bucket w) \<and>
    load_to_staging (bucket w) (staging_orders w) = Inr staged \<longrightarrow>
      data_quality_checks (snd (run_dag ctx w)) =
        data_quality_checks w @
        mismatch_rows (float64 ctx) (cast_string ctx) (generate_uuid ctx) (t_check_amount_mismatch ctx) staged"
    using run_dag_checks[of w staged ctx] by blast
  show "check_new_files (bucket w) \<and>
    load_to_staging (bucket w) (staging_orders w) = Inr staged \<and>
    check_duplicates (t_check_duplicates ctx) staged \<longrightarrow>
      fst (run_dag ctx w) = None \<and>
      fact_orders (snd (run_dag ctx w)) =
        transform_to_fact (float64 ctx) (t_transform_to_fact ctx) (dim_customers w) (dim_products w) staged
          (fact_orders w)"
    using run_dag_reaches_fact[of w staged ctx] by blast
  show "fst (run_dag ctx w) = None \<longleftrightarrow>
      check_new_files (bucket w) \<and>
      (\<exists>s. load_to_staging (bucket w) (staging_orders w) = Inr s \<and>
         check_duplicates (t_check_duplicates ctx) s)"
    by (rule run_dag_success_iff)
qed

lemma todays_O3: "todays t_run [O3] = [O3]"
  by (simp add: todays_def O3_def sample_order_def sample_dates)

theorem amount_mismatch_recorded_witness:
  "distinct (map order_id (todays t_run [O3])) \<and> O3 \<in> set (todays t_run [O3]) \<and>
   amount_mismatch binary64 O3 \<and>
   length (filter (\<lambda>q. q_order_id q = order_id O3)
     (mismatch_rows binary64 sample_cast (\<lambda>i. ''uuid'') t_run [O3])) = 1 \<and>
   mismatch_rows binary64 sample_cast (\<lambda>i. ''uuid'') t_run [O3] =
     [\<lparr>check_id = ''uuid'', check_timestamp = t_run, check_type = ''amount_mismatch'',
       q_order_id = ''O3'', issue_description = Some ''Calculated: 45.0 vs Recorded: 50.0'',
       severity = ''warning''\<rparr>] \<and>
   length (filter (\<lambda>q. q_order_id q = order_id O3)
     (check_amount_mismatch binary64 sample_cast (\<lambda>i. ''uuid'') (t_run + 900000000) [O3]
        (check_amount_mismatch binary64 sample_cast (\<lambda>i. ''uuid'') t_run [O3] []))) = 2 \<and>
   fst (run_dag sample_context (sample_warehouse [(''landing/orders/a.json'', Some [O3])])) = None \<and>
   length (fact_orders (snd (run_dag sample_context
     (sample_warehouse [(''landing/orders/a.json'', Some [O3])])))) = 1"
proof -
  let ?w = "sample_warehouse [(''landing/orders/a.json'', Some [O3])]"
  note inst = amount_mismatch_recorded[where k = "order_id O3" and fp = binary64
      and fmt = sample_cast and uuid = "\<lambda>i. ''uuid''" and now = t_run and staging = "[O3]"
      and r = O3 and w = ?w and staged = "[O3]" and ctx = sample_context
      and now' = "t_run + 900000000" and uuid' = "\<lambda>i. ''uuid''" and checks = "[]"]
  have d: "DATE (t_run + 900000000) = DATE t_run"
    by (simp add: DATE_def t_run_def)
  have s: "check_new_files (bucket ?w)"
    by (simp add: sample_warehouse_def sample_sensor)
  have l: "load_to_staging (bucket ?w) (staging_orders ?w) = Inr [O3]"
    by (simp add: sample_warehouse_def sample_load)
  have c: "check_duplicates (t_check_duplicates sample_context) [O3]"
    unfolding check_duplicates_iff by (simp add: sample_context_def todays_O3)
  have f: "length (transform_to_fact (float64 sample_context) (t_transform_to_fact sample_context)
      (dim_customers ?w) (dim_products ?w) [O3] (fact_orders ?w)) = 1"
    by (simp add: sample_context_def sample_warehouse_def transform_to_fact_def fact_select_def
        new_orders_def todays_O3 joined_rows_def left_join_def)
      (simp add: O3_def sample_order_def)
  have o: "order_id O3 = ''O3''" "total_amount O3 = 50"
    by (simp_all add: O3_def sample_order_def)
  have m: "mismatch_rows binary64 sample_cast (\<lambda>i. ''uuid'') t_run [O3] =
     [\<lparr>check_id = ''uuid'', check_timestamp = t_run, check_type = ''amount_mismatch'',
       q_order_id = ''O3'', issue_description = Some ''Calculated: 45.0 vs Recorded: 50.0'',
       severity = ''warning''\<rparr>]"
    by (simp add: mismatch_rows_def todays_O3 amount_mismatch_O3 describe_mismatch_def
        calculated_total_O3 sample_cast_def o)
  show ?thesis
    using inst d s l c f m amount_mismatch_O3 by (simp add: todays_O3)
qed

text \<open>
  The order \<open>O3\<close> (items worth 45, \<^verbatim>\<open>total_amount\<close> 50) staged twice: two
  findings are recorded for it, and the run is stopped by the duplicate check before the
  insert into \<^verbatim>\<open>fact_orders\<close>.
\<close>

theorem amount_mismatch_counterexample:
  "amount_mismatch binary64 O3 \<and> todays t_run [O3, O3] = [O3, O3] \<and>
   length (filter (\<lambda>q. q_order_id q = order_id O3)
     (data_quality_checks (snd (run_dag sample_context
        (sample_warehouse [(''landing/orders/a.json'', Some [O3, O3])]))))) = 2 \<and>
   fst (run_dag sample_context (sample_warehouse [(''landing/orders/a.json'', Some [O3, O3])])) =
     Some DuplicateOrders \<and>
   fact_orders (snd (run_dag sample_context
     (sample_warehouse [(''landing/orders/a.json'', Some [O3, O3])]))) = []"
proof -
  let ?w = "sample_warehouse [(''landing/orders/a.json'', Some [O3, O3])]"
  have t: "todays t_run [O3, O3] = [O3, O3]"
    by (simp add: todays_def O3_def sample_order_def sample_dates)
  have s: "check_new_files (bucket ?w)"
    by (simp add: sample_warehouse_def sample_sensor)
  have l: "load_to_staging (bucket ?w) (staging_orders ?w) = Inr [O3, O3]"
    by (simp add: sample_warehouse_def sample_load)
  have c: "\<not> check_duplicates (t_check_duplicates sample_context) [O3, O3]"
    unfolding check_duplicates_iff by (simp add: sample_context_def t)
  have q: "data_quality_checks (snd (run_dag sample_context ?w)) =
      mismatch_rows binary64 (cast_string sample_context) (generate_uuid sample_context) t_run
        [O3, O3]"
    using run_dag_checks[OF s l, of sample_context]
    by (simp add: sample_warehouse_def sample_context_def)
  have n: "length (filter (\<lambda>q. q_order_id q = order_id O3)
      (data_quality_checks (snd (run_dag sample_context ?w)))) = 2"
    unfolding q mismatch_rows_count by (simp add: t amount_mismatch_O3)
  have r: "run_dag sample_context ?w = (Some DuplicateOrders,
      ?w\<lparr>staging_orders := [O3, O3],
         data_quality_checks := check_amount_mismatch (float64 sample_context) (cast_string sample_context)
           (generate_uuid sample_context) (t_check_amount_mismatch sample_context) [O3, O3]
           (data_quality_checks ?w)\<rparr>)"
    using s l c by (simp add: run_dag_def Let_def)
  have f: "fact_orders (snd (run_dag sample_context ?w)) = []"
    unfolding r by (simp add: sample_warehouse_def)
  show ?thesis
    using amount_mismatch_O3 t n f r by simp
qed

subsection \<open>The rows of one order\<close>

lemma unique_key_left_join:
  assumes "distinct (map f xs)"
  shows "\<exists>m. left_join (filter (\<lambda>x. k = f x) xs) = [m]"
proof -
  have "length (filter (\<lambda>x. f x = k) xs) \<le> 1"
    using assms distinct_map_count[of f xs] by blast
  moreover have "filter (\<lambda>x. k = f x) xs = filter (\<lambda>x. f x = k) xs"
    by (rule filter_cong) auto
  ultimately have "length (filter (\<lambda>x. k = f x) xs) \<le> 1" by simp
  then show ?thesis
    by (cases "filter (\<lambda>x. k = f x) xs") (auto simp: left_join_def)
qed

lemma joined_rows_unique_keys:
  assumes "distinct (map c_customer_id customers)" and "distinct (map p_product_id products)"
  shows "\<exists>c p. joined_rows fp customers products r =
           map (\<lambda>item. fact_row fp r item c (p item)) (left_join (items r))"
proof -
  obtain c where c: "left_join (filter (\<lambda>c. customer_id r = c_customer_id c) customers) = [c]"
    using unique_key_left_join[OF assms(1)] by blast
  have ex: "\<forall>item :: line_item option.
      \<exists>m. left_join (filter (\<lambda>p. col item product_id = Some (p_product_id p)) products) = [m]"
  proof
    fix item :: "line_item option"
    show "\<exists>m. left_join (filter (\<lambda>p. col item product_id = Some (p_product_id p)) products) = [m]"
    proof (cases "col item product_id")
      case None
      then show ?thesis by (simp add: left_join_def)
    next
      case (Some k)
      then show ?thesis using unique_key_left_join[OF assms(2), of k] by simp
    qed
  qed
  from choice[OF ex] obtain p where p: "\<forall>item :: line_item option.
      left_join (filter (\<lambda>p. col item product_id = Some (p_product_id p)) products) = [p item]" ..
  have "joined_rows fp customers products r =
      map (\<lambda>item. fact_row fp r item c (p item)) (left_join (items r))"
    by (simp add: joined_rows_def c p)
  then show ?thesis by blast
qed

lemma concat_single:
  "distinct xs \<Longrightarrow> r \<in> set xs \<Longrightarrow> concat (map (\<lambda>x. if x = r then ys else []) xs) = ys"
  by (induction xs) auto

lemma filter_joined_rows:
  "filter (\<lambda>f. f_order_id f = k) (joined_rows fp customers products r) =
   (if order_id r = k then joined_rows fp customers products r else [])"
  using joined_rows_order_id[of _ fp customers products r]
  by (auto simp: filter_empty_conv filter_id_conv)

lemma fact_select_of_order:
  assumes d: "distinct (map order_id (todays now staging))"
    and r: "r \<in> set (todays now staging)" and n: "order_id r \<notin> set (map f_order_id facts)"
  shows "filter (\<lambda>f. f_order_id f = order_id r) (fact_select fp now customers products staging facts) =
         joined_rows fp customers products r"
proof -
  let ?new = "new_orders now staging facts"
  have dn: "distinct (map order_id ?new)"
    unfolding new_orders_def using d by (simp add: distinct_map_filter)
  then have dist: "distinct ?new" and inj: "inj_on order_id (set ?new)"
    by (simp_all add: distinct_map)
  have rn: "r \<in> set ?new" using r n by (simp add: new_orders_def)
  have "filter (\<lambda>f. f_order_id f = order_id r) (fact_select fp now customers products staging facts) =
        concat (map (\<lambda>x. if order_id x = order_id r then joined_rows fp customers products x else []) ?new)"
    by (simp add: fact_select_def filter_concat comp_def filter_joined_rows)
  also have "\<dots> = concat (map (\<lambda>x. if x = r then joined_rows fp customers products r else []) ?new)"
  proof -
    have "\<And>x. x \<in> set ?new \<Longrightarrow>
        (if order_id x = order_id r then joined_rows fp customers products x else []) =
        (if x = r then joined_rows fp customers products r else [])"
      using inj rn by (auto dest: inj_onD)
    then show ?thesis by (simp cong: map_cong)
  qed
  also have "\<dots> = joined_rows fp customers products r"
    using concat_single[OF dist rn] .
  finally show ?thesis .
qed

text \<open>
  Claim C6, as the code has it. When each dimension table holds at most one row per key, a
  staged row contributes one fact row per line item, carrying the item's
  \<^verbatim>\<open>product_id\<close>, \<^verbatim>\<open>quantity\<close> and \<^verbatim>\<open>unit_price\<close> and their product as
  \<^verbatim>\<open>line_total\<close>, and one fact row with these four columns NULL when it has no
  line item: the unnesting is a \<^verbatim>\<open>LEFT JOIN\<close>. Every such row carries the order's
  \<^verbatim>\<open>order_id\<close>, \<^verbatim>\<open>customer_id\<close>, timestamp and \<^verbatim>\<open>total_amount\<close>. When
  moreover the \<^verbatim>\<open>order_id\<close>s of the window are distinct, the rows inserted for an
  \<^verbatim>\<open>order_id\<close> that the fact store lacks are those of its one staged row.
\<close>

theorem one_fact_row_per_line_item:
  assumes "distinct (map c_customer_id customers)" and "distinct (map p_product_id products)"
  shows "length (joined_rows fp customers products r) =
           (if items r = [] then 1 else length (items r)) \<and>
         map (\<lambda>f. (f_product_id f, f_quantity f, f_unit_price f, line_total f))
           (joined_rows fp customers products r) =
           (if items r = [] then [(None, None, None, None)]
            else map (\<lambda>i. (product_id i, quantity i, unit_price i,
                            sql_mul fp (quantity i) (unit_price i))) (items r)) \<and>
         (\<forall>f \<in> set (joined_rows fp customers products r).
            f_order_id f = order_id r \<and> f_customer_id f = customer_id r \<and>
            f_order_timestamp f = order_timestamp r \<and> f_total_amount f = total_amount r) \<and>
         (distinct (map order_id (todays now staging)) \<and> r \<in> set (todays now staging) \<and>
          order_id r \<notin> set (map f_order_id facts) \<longrightarrow>
            filter (\<lambda>f. f_order_id f = order_id r)
              (fact_select fp now customers products staging facts) =
            joined_rows fp customers products r)"
proof -
  obtain c p where j: "joined_rows fp customers products r =
      map (\<lambda>item. fact_row fp r item c (p item)) (left_join (items r))"
    using joined_rows_unique_keys[OF assms] by blast
  have 1: "length (joined_rows fp customers products r) =
           (if items r = [] then 1 else length (items r))"
    by (simp add: j left_join_def)
  have 2: "map (\<lambda>f. (f_product_id f, f_quantity f, f_unit_price f, line_total f))
           (joined_rows fp customers products r) =
           (if items r = [] then [(None, None, None, None)]
            else map (\<lambda>i. (product_id i, quantity i, unit_price i,
                            sql_mul fp (quantity i) (unit_price i))) (items r))"
    by (simp add: j left_join_def fact_row_def col_def comp_def sql_mul_def split: option.splits)
  have 3: "\<forall>f \<in> set (joined_rows fp customers products r).
            f_order_id f = order_id r \<and> f_customer_id f = customer_id r \<and>
            f_order_timestamp f = order_timestamp r \<and> f_total_amount f = total_amount r"
    by (auto simp: j fact_row_def)
  show ?thesis
    using 1 2 3 fact_select_of_order[of now staging r facts fp customers products] by blast
qed

lemma todays_O1: "todays t_run [O1] = [O1]"
  by (simp add: todays_def O1_def sample_order_def sample_dates)

lemma line_totals_O1:
  "sql_mul binary64 (Some 2) (Some 10) = Some 20 \<and> sql_mul binary64 (Some 1) (Some 10) = Some 10"
  by code_simp

theorem one_fact_row_per_line_item_witness:
  "distinct (map c_customer_id sample_customers) \<and> distinct (map p_product_id sample_products) \<and>
   distinct (map order_id (todays t_run [O1])) \<and> O1 \<in> set (todays t_run [O1]) \<and>
   order_id O1 \<notin> set (map f_order_id []) \<and> length (items O1) = 2 \<and>
   length (filter (\<lambda>f. f_order_id f = order_id O1)
     (fact_select binary64 t_run sample_customers sample_products [O1] [])) = 2 \<and>
   map (\<lambda>f. (f_product_id f, f_quantity f, f_unit_price f, line_total f))
     (fact_select binary64 t_run sample_customers sample_products [O1] []) =
     [(Some ''PROD-1'', Some 2, Some 10, Some 20), (Some ''PROD-2'', Some 1, Some 10, Some 10)]"
proof -
  have c: "distinct (map c_customer_id sample_customers)"
    by (simp add: sample_customers_def)
  have p: "distinct (map p_product_id sample_products)"
    by (simp add: sample_products_def)
  have i: "items O1 = [sample_item ''PROD-1'' 2 10, sample_item ''PROD-2'' 1 10]"
    by (simp add: O1_def sample_order_def)
  have f: "fact_select binary64 t_run sample_customers sample_products [O1] [] =
      joined_rows binary64 sample_customers sample_products O1"
    by (simp add: fact_select_def new_orders_def todays_O1)
  show ?thesis
    using c p one_fact_row_per_line_item[OF c p, of binary64 O1 t_run "[O1]" "[]"]
    by (simp add: todays_O1 i f sample_item_def line_totals_O1)
qed

text \<open>
  The order \<open>O5\<close> has no line item and gets one fact row; the order \<open>O2\<close> has one
  line item and gets two fact rows when its customer is listed twice in
  \<^verbatim>\<open>dim_customers\<close>.
\<close>

theorem one_fact_row_per_line_item_counterexample:
  "items O5 = [] \<and> todays t_run [O5] = [O5] \<and>
   length (fact_select binary64 t_run sample_customers sample_products [O5] []) = 1 \<and>
   map (\<lambda>f. (f_order_id f, f_product_id f, f_quantity f, f_unit_price f, line_total f))
     (fact_select binary64 t_run sample_customers sample_products [O5] []) =
     [(''O5'', None, None, None, None)] \<and>
   length (items O2) = 1 \<and> todays t_run [O2] = [O2] \<and>
   length (fact_select binary64 t_run (sample_customers @ sample_customers) sample_products [O2] []) = 2"
proof -
  have e: "items O5 = []" by (simp add: O5_def sample_order_def)
  have t5: "todays t_run [O5] = [O5]"
    by (simp add: todays_def O5_def sample_order_def sample_dates)
  have t2: "todays t_run [O2] = [O2]"
    by (simp add: todays_def O2_def sample_order_def sample_dates)
  have j5: "length (joined_rows binary64 sample_customers sample_products O5) = 1"
    by (simp add: joined_rows_def left_join_def e sample_customers_def col_def)
  have m5: "map (\<lambda>f. (f_order_id f, f_product_id f, f_quantity f, f_unit_price f, line_total f))
      (joined_rows binary64 sample_customers sample_products O5) =
      [(''O5'', None, None, None, None)]"
    by (simp add: joined_rows_def left_join_def e sample_customers_def col_def fact_row_def
        sql_mul_def)
      (simp add: O5_def sample_order_def)
  have i2: "items O2 = [sample_item ''PROD-3'' 1 60]" "customer_id O2 = ''CUST-2''"
    by (simp_all add: O2_def sample_order_def)
  have j2: "length (joined_rows binary64 (sample_customers @ sample_customers) sample_products O2) = 2"
    by (simp add: joined_rows_def left_join_def i2 sample_customers_def sample_products_def
        col_def sample_item_def)
  show ?thesis
    using e t5 t2 j5 j2 m5 by (simp add: fact_select_def new_orders_def i2)
qed

subsection \<open>The merge into the hourly aggregates\<close>

lemma metric_hour_hour_row: "metric_hour (hour_row fp now facts h) = h"
  by (simp add: hour_row_def Let_def)

lemma updated_at_hour_row: "updated_at (hour_row fp now facts h) = now"
  by (simp add: hour_row_def Let_def)

lemma hourly_source_hours:
  "map metric_hour (hourly_source fp now facts) =
   remdups (map (\<lambda>f. TIMESTAMP_TRUNC_HOUR (f_order_timestamp f)) (todays_facts now facts))"
  by (simp add: hourly_source_def comp_def metric_hour_hour_row)

lemma find_hour_row:
  "find (\<lambda>s. h = metric_hour s) (map (hour_row fp now facts) hs) =
   (if h \<in> set hs then Some (hour_row fp now facts h) else None)"
  by (induction hs) (auto simp: metric_hour_hour_row)

lemma filter_hour_row:
  "distinct hs \<Longrightarrow>
   filter (\<lambda>s. metric_hour s = h) (map (hour_row fp now facts) hs) =
   (if h \<in> set hs then [hour_row fp now facts h] else [])"
  by (induction hs) (auto simp: metric_hour_hour_row)

lemma merge_matched_eq:
  "merge_matched now (hourly_source fp now facts) t =
   (if metric_hour t \<in> set (map metric_hour (hourly_source fp now facts))
    then hour_row fp now facts (metric_hour t) else t)"
proof -
  have "t\<lparr>total_orders := total_orders s, total_revenue := total_revenue s,
            avg_order_value := avg_order_value s, unique_customers := unique_customers s,
            updated_at := updated_at s\<rparr> = s" if "metric_hour s = metric_hour t" for s
    using that by (cases t, cases s) simp
  then have "t\<lparr>total_orders := total_orders (hour_row fp now facts (metric_hour t)),
            total_revenue := total_revenue (hour_row fp now facts (metric_hour t)),
            avg_order_value := avg_order_value (hour_row fp now facts (metric_hour t)),
            unique_customers := unique_customers (hour_row fp now facts (metric_hour t)),
            updated_at := now\<rparr> = hour_row fp now facts (metric_hour t)"
    using metric_hour_hour_row[of fp now facts "metric_hour t"]
      updated_at_hour_row[of fp now facts "metric_hour t"] by metis
  then show ?thesis
    unfolding hourly_source_hours
    by (simp add: merge_matched_def hourly_source_def find_hour_row)
qed

lemma merge_matched_hour: "metric_hour (merge_matched now src t) = metric_hour t"
  by (simp add: merge_matched_def split: option.splits)

lemma merge_not_matched_eq:
  "merge_not_matched now (hourly_source fp now facts) agg =
   filter (\<lambda>s. metric_hour s \<notin> set (map metric_hour agg)) (hourly_source fp now facts)"
proof -
  have "\<lparr>metric_hour = metric_hour s, total_orders = total_orders s,
         total_revenue = total_revenue s, avg_order_value = avg_order_value s,
         unique_customers = unique_customers s, updated_at = now\<rparr> = s"
    if "s \<in> set (hourly_source fp now facts)" for s
  proof -
    from that have "updated_at s = now"
      by (auto simp: hourly_source_def updated_at_hour_row)
    then show ?thesis by (cases s) simp
  qed
  then show ?thesis
    unfolding merge_not_matched_def by (intro map_idI) simp
qed

lemma merge_rows_of_hour:
  "(h \<in> set (map metric_hour (hourly_source fp now facts)) \<longrightarrow>
      filter (\<lambda>t. metric_hour t = h) (update_hourly_agg fp now facts agg) =
        replicate (max 1 (length (filter (\<lambda>t. metric_hour t = h) agg))) (hour_row fp now facts h) \<and>
      metric_hour (hour_row fp now facts h) = h \<and> updated_at (hour_row fp now facts h) = now) \<and>
   (h \<notin> set (map metric_hour (hourly_source fp now facts)) \<longrightarrow>
      filter (\<lambda>t. metric_hour t = h) (update_hourly_agg fp now facts agg) =
        filter (\<lambda>t. metric_hour t = h) agg)"
proof -
  let ?src = "hourly_source fp now facts"
  let ?hs = "remdups (map (\<lambda>f. TIMESTAMP_TRUNC_HOUR (f_order_timestamp f)) (todays_facts now facts))"
  let ?P = "\<lambda>t. metric_hour t = h"
  have hs: "map metric_hour ?src = ?hs" by (rule hourly_source_hours)
  have old: "filter ?P (map (merge_matched now ?src) agg) =
      map (merge_matched now ?src) (filter ?P agg)"
    by (simp add: filter_map comp_def merge_matched_hour)
  have new: "filter ?P (merge_not_matched now ?src agg) =
      (if h \<in> set ?hs \<and> h \<notin> set (map metric_hour agg) then [hour_row fp now facts h] else [])"
  proof -
    have "filter ?P (merge_not_matched now ?src agg) =
        filter (\<lambda>s. metric_hour s \<notin> set (map metric_hour agg)) (filter ?P ?src)"
      unfolding merge_not_matched_eq by (simp add: conj_commute)
    also have "filter ?P ?src = (if h \<in> set ?hs then [hour_row fp now facts h] else [])"
      unfolding hourly_source_def by (rule filter_hour_row) simp
    finally show ?thesis by (simp add: metric_hour_hour_row)
  qed
  have absent: "h \<notin> set (map metric_hour agg) \<longleftrightarrow> filter ?P agg = []"
    by (auto simp: filter_empty_conv)
  show ?thesis
  proof (intro conjI impI)
    assume h: "h \<in> set (map metric_hour ?src)"
    then have hin: "h \<in> set ?hs" unfolding hs .
    have "map (merge_matched now ?src) (filter ?P agg) =
        map (\<lambda>t. hour_row fp now facts h) (filter ?P agg)"
      by (rule map_cong) (use h in \<open>auto simp: merge_matched_eq\<close>)
    then have o: "filter ?P (map (merge_matched now ?src) agg) =
        replicate (length (filter ?P agg)) (hour_row fp now facts h)"
      unfolding old by (simp add: map_replicate_const)
    show "filter ?P (update_hourly_agg fp now facts agg) =
        replicate (max 1 (length (filter ?P agg))) (hour_row fp now facts h)"
    proof (cases "filter ?P agg = []")
      case True
      then show ?thesis
        using o new hin absent by (simp add: update_hourly_agg_def Let_def)
    next
      case False
      then have "max 1 (length (filter ?P agg)) = length (filter ?P agg)"
        by (cases "filter ?P agg") auto
      then show ?thesis
        using o new False absent by (simp add: update_hourly_agg_def Let_def)
    qed
    show "metric_hour (hour_row fp now facts h) = h" by (rule metric_hour_hour_row)
    show "updated_at (hour_row fp now facts h) = now" by (rule updated_at_hour_row)
  next
    assume h: "h \<notin> set (map metric_hour ?src)"
    then have hout: "h \<notin> set ?hs" unfolding hs .
    have "map (merge_matched now ?src) (filter ?P agg) = map (\<lambda>t. t) (filter ?P agg)"
      by (rule map_cong) (use h in \<open>auto simp: merge_matched_eq\<close>)
    then show "filter ?P (update_hourly_agg fp now facts agg) = filter ?P agg"
      using new hout old by (simp add: update_hourly_agg_def Let_def)
  qed
qed

lemma hour_row_eq:
  "hour_row fp now facts h =
     (let g = filter (\<lambda>f. DATE (f_order_timestamp f) = DATE now \<and>
                        TIMESTAMP_TRUNC_HOUR (f_order_timestamp f) = h) facts
      in \<lparr>metric_hour = h,
          total_orders = card (f_order_id ` set g),
          total_revenue = f_sum fp (map f_total_amount g),
          avg_order_value = f_avg fp (map f_total_amount g),
          unique_customers = card (f_customer_id ` set g),
          updated_at = now\<rparr>)"
proof -
  have "hour_group now facts h =
      filter (\<lambda>f. DATE (f_order_timestamp f) = DATE now \<and>
                 TIMESTAMP_TRUNC_HOUR (f_order_timestamp f) = h) facts"
    by (simp add: hour_group_def todays_facts_def conj_commute)
  then show ?thesis
    by (simp add: hour_row_def Let_def length_remdups_card_conv)
qed

text \<open>
  Claim C7. For an hour that today's fact rows cover, the rows of that hour after the merge
  are copies of the row recomputed from the fact store, stamped with the time of the merge:
  the number of distinct \<^verbatim>\<open>order_id\<close>s, the sum and the average of
  \<^verbatim>\<open>total_amount\<close> and the number of distinct \<^verbatim>\<open>customer_id\<close>s over today's fact
  rows of the hour. There is one copy when the target had no row for the hour (the
  insert), and otherwise one per row the target had (the update). Nothing of the values
  stored before is left in them. The rows of an hour that today's fact rows do not cover
  are untouched.
\<close>

theorem update_hourly_agg_overwrites:
  "(h \<in> set (map (\<lambda>f. TIMESTAMP_TRUNC_HOUR (f_order_timestamp f))
            (filter (\<lambda>f. DATE (f_order_timestamp f) = DATE now) facts)) \<longrightarrow>
      filter (\<lambda>t. metric_hour t = h) (update_hourly_agg fp now facts agg) =
        replicate (max 1 (length (filter (\<lambda>t. metric_hour t = h) agg)))
          (let g = filter (\<lambda>f. DATE (f_order_timestamp f) = DATE now \<and>
                             TIMESTAMP_TRUNC_HOUR (f_order_timestamp f) = h) facts
           in \<lparr>metric_hour = h,
               total_orders = card (f_order_id ` set g),
               total_revenue = f_sum fp (map f_total_amount g),
               avg_order_value = f_avg fp (map f_total_amount g),
               unique_customers = card (f_customer_id ` set g),
               updated_at = now\<rparr>)) \<and>
   (h \<notin> set (map (\<lambda>f. TIMESTAMP_TRUNC_HOUR (f_order_timestamp f))
            (filter (\<lambda>f. DATE (f_order_timestamp f) = DATE now) facts)) \<longrightarrow>
      filter (\<lambda>t. metric_hour t = h) (update_hourly_agg fp now facts agg) =
        filter (\<lambda>t. metric_hour t = h) agg)"
proof -
  have "set (map metric_hour (hourly_source fp now facts)) =
      set (map (\<lambda>f. TIMESTAMP_TRUNC_HOUR (f_order_timestamp f))
            (filter (\<lambda>f. DATE (f_order_timestamp f) = DATE now) facts))"
    by (simp add: hourly_source_hours todays_facts_def)
  then show ?thesis
    using merge_rows_of_hour[of h fp now facts agg] unfolding hour_row_eq by simp
qed

lemma fact_row_sel:
  "f_order_id (fact_row fp r item c p) = order_id r"
  "f_customer_id (fact_row fp r item c p) = customer_id r"
  "f_order_timestamp (fact_row fp r item c p) = order_timestamp r"
  "f_total_amount (fact_row fp r item c p) = total_amount r"
  by (simp_all add: fact_row_def)

lemma sample_facts_rows:
  "sample_facts =
     [fact_row binary64 O1 (Some (sample_item ''PROD-1'' 2 10)) None None,
      fact_row binary64 O1 (Some (sample_item ''PROD-2'' 1 10)) None None,
      fact_row binary64 O2 (Some (sample_item ''PROD-3'' 1 60)) None None]"
proof -
  have t: "todays t_run [O1, O2] = [O1, O2]"
    by (simp add: todays_def O1_def O2_def sample_order_def sample_dates)
  have i: "items O1 = [sample_item ''PROD-1'' 2 10, sample_item ''PROD-2'' 1 10]"
    "items O2 = [sample_item ''PROD-3'' 1 60]"
    by (simp_all add: O1_def O2_def sample_order_def)
  show ?thesis
    by (simp add: sample_facts_def transform_to_fact_def fact_select_def new_orders_def t
        joined_rows_def left_join_def i)
qed

lemma sample_order_sel:
  "order_id (sample_order oid cid its tot) = oid"
  "customer_id (sample_order oid cid its tot) = cid"
  "order_timestamp (sample_order oid cid its tot) = t_order"
  "total_amount (sample_order oid cid its tot) = tot"
  by (simp_all add: sample_order_def)

lemma sample_hour: "TIMESTAMP_TRUNC_HOUR t_order = 1704103200000000"
  by (simp add: TIMESTAMP_TRUNC_HOUR_def t_order_def)

lemma sample_sums:
  "f_sum binary64 [30, 30, 60] = 120 \<and> f_avg binary64 [30, 30, 60] = 40"
  by code_simp

lemma sample_todays_facts: "todays_facts t_run sample_facts = sample_facts"
  by (simp add: todays_facts_def sample_facts_rows fact_row_sel O1_def O2_def sample_order_sel
      sample_dates)

lemma sample_hour_row:
  "hour_row binary64 t_run sample_facts 1704103200000000 =
     \<lparr>metric_hour = 1704103200000000, total_orders = 2, total_revenue = 120,
      avg_order_value = 40, unique_customers = 2, updated_at = t_run\<rparr>"
proof -
  have g: "hour_group t_run sample_facts 1704103200000000 = sample_facts"
    unfolding hour_group_def sample_todays_facts
    by (simp add: sample_facts_rows fact_row_sel O1_def O2_def sample_order_sel sample_hour)
  show ?thesis
    unfolding hour_row_def g Let_def
    by (simp add: sample_facts_rows fact_row_sel O1_def O2_def sample_order_sel sample_sums)
qed

lemma sample_hourly_source:
  "hourly_source binary64 t_run sample_facts =
     [\<lparr>metric_hour = 1704103200000000, total_orders = 2, total_revenue = 120,
       avg_order_value = 40, unique_customers = 2, updated_at = t_run\<rparr>]"
proof -
  have "remdups (map (\<lambda>f. TIMESTAMP_TRUNC_HOUR (f_order_timestamp f)) sample_facts) =
      [1704103200000000]"
    by (simp add: sample_facts_rows fact_row_sel O1_def O2_def sample_order_sel sample_hour)
  then show ?thesis
    unfolding hourly_source_def sample_todays_facts by (simp add: sample_hour_row)
qed

theorem update_hourly_agg_overwrites_witness:
  "1704103200000000 \<in> set (map (\<lambda>f. TIMESTAMP_TRUNC_HOUR (f_order_timestamp f))
       (filter (\<lambda>f. DATE (f_order_timestamp f) = DATE t_run) sample_facts)) \<and>
   stale_metric =
     \<lparr>metric_hour = 1704103200000000, total_orders = 3, total_revenue = 150,
      avg_order_value = 50, unique_customers = 3, updated_at = 0\<rparr> \<and>
   update_hourly_agg binary64 t_run sample_facts [stale_metric] =
     [\<lparr>metric_hour = 1704103200000000, total_orders = 2, total_revenue = 120,
       avg_order_value = 40, unique_customers = 2, updated_at = t_run\<rparr>] \<and>
   update_hourly_agg binary64 t_run sample_facts [] =
     [\<lparr>metric_hour = 1704103200000000, total_orders = 2, total_revenue = 120,
       avg_order_value = 40, unique_customers = 2, updated_at = t_run\<rparr>]"
proof -
  let ?h = "1704103200000000 :: int"
  have m: "?h \<in> set (map (\<lambda>f. TIMESTAMP_TRUNC_HOUR (f_order_timestamp f))
       (filter (\<lambda>f. DATE (f_order_timestamp f) = DATE t_run) sample_facts))"
    by (simp add: sample_facts_rows fact_row_sel O1_def O2_def sample_order_sel sample_hour
        sample_dates)
  have a: "length (update_hourly_agg binary64 t_run sample_facts [stale_metric]) = 1"
    by (simp add: update_hourly_agg_def Let_def merge_not_matched_def sample_hourly_source
        stale_metric_def)
  have b: "length (update_hourly_agg binary64 t_run sample_facts []) = 1"
    by (simp add: update_hourly_agg_def Let_def merge_not_matched_def sample_hourly_source)
  have fa: "filter (\<lambda>t. metric_hour t = ?h)
      (update_hourly_agg binary64 t_run sample_facts [stale_metric]) =
      [hour_row binary64 t_run sample_facts ?h]"
    using m update_hourly_agg_overwrites[of ?h t_run sample_facts binary64 "[stale_metric]"]
    unfolding hour_row_eq[symmetric] by (simp add: stale_metric_def)
  have fb: "filter (\<lambda>t. metric_hour t = ?h) (update_hourly_agg binary64 t_run sample_facts []) =
      [hour_row binary64 t_run sample_facts ?h]"
    using m update_hourly_agg_overwrites[of ?h t_run sample_facts binary64 "[]"]
    unfolding hour_row_eq[symmetric] by simp
  have one: "length xs = 1 \<Longrightarrow> filter P xs = [y] \<Longrightarrow> xs = [y]"
    for xs :: "hourly_metric list" and P y
    by (cases xs) (auto split: if_splits)
  show ?thesis
    using m one[OF a fa] one[OF b fb] by (simp add: sample_hour_row stale_metric_def)
qed

text \<open>
  Claim C4, on a concrete run. The orders \<open>O1\<close> (two line items, \<^verbatim>\<open>total_amount\<close>
  30) and \<open>O2\<close> (one line item, \<^verbatim>\<open>total_amount\<close> 60) fall in the same hour. The
  aggregates range over the fact rows, one per line item, so the run stores a revenue of
  120 and an average of 40, where the two orders are worth 90 together and 45 on average.
\<close>

theorem hourly_revenue_counts_line_items:
  "staging_orders (snd (run_dag sample_context
     (sample_warehouse [(''landing/orders/a.json'', Some [O1, O2])]))) = [O1, O2] \<and>
   length (items O1) = 2 \<and> length (items O2) = 1 \<and>
   total_amount O1 + total_amount O2 = 90 \<and>
   agg_hourly_metrics (snd (run_dag sample_context
     (sample_warehouse [(''landing/orders/a.json'', Some [O1, O2])]))) =
     [\<lparr>metric_hour = 1704103200000000, total_orders = 2, total_revenue = 120,
       avg_order_value = 40, unique_customers = 2, updated_at = t_run\<rparr>]"
proof -
  let ?w = "sample_warehouse [(''landing/orders/a.json'', Some [O1, O2])]"
  have s: "check_new_files (bucket ?w)"
    by (simp add: sample_warehouse_def sample_sensor)
  have l: "load_to_staging (bucket ?w) (staging_orders ?w) = Inr [O1, O2]"
    by (simp add: sample_warehouse_def sample_load)
  have t: "todays t_run [O1, O2] = [O1, O2]"
    by (simp add: todays_def O1_def O2_def sample_order_def sample_dates)
  have c: "check_duplicates (t_check_duplicates sample_context) [O1, O2]"
    unfolding check_duplicates_iff
    by (simp add: sample_context_def t) (simp add: O1_def O2_def sample_order_sel)
  have f: "fact_orders (snd (run_dag sample_context ?w)) = sample_facts"
    using run_dag_cases[of sample_context ?w] s l c
    by (auto simp: sample_facts_def sample_context_def sample_warehouse_def)
  have st: "staging_orders (snd (run_dag sample_context ?w)) = [O1, O2]"
    using run_dag_cases[of sample_context ?w] s l c by auto
  have a: "agg_hourly_metrics (snd (run_dag sample_context ?w)) =
      update_hourly_agg binary64 t_run sample_facts []"
    using run_dag_cases[of sample_context ?w] s l c f
    by (auto simp: sample_context_def sample_warehouse_def)
  have u: "update_hourly_agg binary64 t_run sample_facts [] =
     [\<lparr>metric_hour = 1704103200000000, total_orders = 2, total_revenue = 120,
       avg_order_value = 40, unique_customers = 2, updated_at = t_run\<rparr>]"
    by (simp add: update_hourly_agg_def Let_def merge_not_matched_def sample_hourly_source)
  show ?thesis
    unfolding a u st by (simp add: O1_def O2_def sample_order_def)
qed

subsection \<open>The window\<close>

lemma todays_other_day:
  "DATE (order_timestamp r) \<noteq> DATE now \<Longrightarrow> todays now (xs @ r # ys) = todays now (xs @ ys)"
  by (simp add: todays_def)

lemma todays_facts_other_day:
  assumes "DATE (order_timestamp r) \<noteq> DATE now"
  shows "todays_facts now (fs @ joined_rows fp customers products r @ gs) = todays_facts now (fs @ gs)"
proof -
  have "filter (\<lambda>f. DATE (f_order_timestamp f) = DATE now) (joined_rows fp customers products r) = []"
    using assms by (auto simp: filter_empty_conv joined_rows_def fact_row_sel)
  then show ?thesis by (simp add: todays_facts_def)
qed

lemma hourly_source_todays:
  "todays_facts now facts = todays_facts now facts' \<Longrightarrow>
   hourly_source fp now facts = hourly_source fp now facts'"
  by (simp add: hourly_source_def hour_row_def hour_group_def)

lemma fact_select_dated_today:
  "f \<in> set (fact_select fp now customers products staging facts) \<Longrightarrow>
   DATE (f_order_timestamp f) = DATE now \<and> order_date f = DATE now"
  by (auto simp: fact_select_def new_orders_def todays_def joined_rows_def fact_row_def)

lemma fact_select_by_order_ids:
  "set (map f_order_id facts) = set (map f_order_id facts') \<Longrightarrow>
   fact_select fp now customers products staging facts =
   fact_select fp now customers products staging facts'"
  by (simp add: fact_select_def new_orders_def)

lemma fact_select_skips_known:
  "f \<in> set (fact_select fp now customers products staging (hs @ g # ks)) \<Longrightarrow>
   f_order_id f \<noteq> f_order_id g"
proof -
  assume "f \<in> set (fact_select fp now customers products staging (hs @ g # ks))"
  then obtain r where r: "r \<in> set (new_orders now staging (hs @ g # ks))"
    and f: "f \<in> set (joined_rows fp customers products r)"
    by (auto simp: fact_select_def)
  from r have "order_id r \<noteq> f_order_id g" by (simp add: new_orders_def)
  then show ?thesis using joined_rows_order_id[OF f] by simp
qed

text \<open>
  Claim C9, as the code has it. Each statement keeps, of the table in its
  \<^verbatim>\<open>FROM\<close> clause, the rows dated on the day on which it runs. A staged row dated
  on another day is therefore as good as absent, wherever it stands in the staging table:
  the duplicate check forms the same groups and gives the same verdict, the consistency
  check appends the same findings, the insert appends the same fact rows, all of them
  dated today, and the fact rows that the row may have got on its own day leave the merge
  into the hourly aggregates as it is. The subquery under \<^verbatim>\<open>NOT EXISTS\<close> is the one
  read without the filter: the insert depends on the fact store through the set of its
  \<^verbatim>\<open>order_id\<close>s, of whatever date, and inserts no row with the \<^verbatim>\<open>order_id\<close> of a
  fact row that is there.
\<close>

theorem other_days_are_ignored:
  assumes "DATE (order_timestamp r) \<noteq> DATE now"
  shows "duplicate_groups now (xs @ r # ys) = duplicate_groups now (xs @ ys) \<and>
         check_duplicates now (xs @ r # ys) = check_duplicates now (xs @ ys) \<and>
         check_amount_mismatch fp fmt uuid now (xs @ r # ys) checks =
           check_amount_mismatch fp fmt uuid now (xs @ ys) checks \<and>
         transform_to_fact fp now customers products (xs @ r # ys) facts =
           transform_to_fact fp now customers products (xs @ ys) facts \<and>
         (\<forall>f \<in> set (fact_select fp now customers products (xs @ r # ys) facts).
            DATE (f_order_timestamp f) = DATE now) \<and>
         update_hourly_agg fp now (fs @ joined_rows fp' customers' products' r @ gs) agg =
           update_hourly_agg fp now (fs @ gs) agg \<and>
         (set (map f_order_id facts) = set (map f_order_id facts') \<longrightarrow>
            fact_select fp now customers products staging facts =
            fact_select fp now customers products staging facts') \<and>
         (\<forall>f \<in> set (fact_select fp now customers products staging (hs @ g # ks)).
            f_order_id f \<noteq> f_order_id g)"
proof -
  note t = todays_other_day[OF assms, of xs ys]
  have 1: "duplicate_groups now (xs @ r # ys) = duplicate_groups now (xs @ ys)"
    by (simp add: duplicate_groups_def t)
  then have 2: "check_duplicates now (xs @ r # ys) = check_duplicates now (xs @ ys)"
    by (simp add: check_duplicates_def)
  have 3: "check_amount_mismatch fp fmt uuid now (xs @ r # ys) checks =
           check_amount_mismatch fp fmt uuid now (xs @ ys) checks"
    by (simp add: check_amount_mismatch_def mismatch_rows_def t)
  have 4: "transform_to_fact fp now customers products (xs @ r # ys) facts =
           transform_to_fact fp now customers products (xs @ ys) facts"
    by (simp add: transform_to_fact_def fact_select_def new_orders_def t)
  have 5: "\<forall>f \<in> set (fact_select fp now customers products (xs @ r # ys) facts).
            DATE (f_order_timestamp f) = DATE now"
    by (rule ballI) (simp add: fact_select_dated_today)
  have 6: "update_hourly_agg fp now (fs @ joined_rows fp' customers' products' r @ gs) agg =
           update_hourly_agg fp now (fs @ gs) agg"
    unfolding update_hourly_agg_def
    using hourly_source_todays[OF todays_facts_other_day[OF assms, of fs fp' customers' products' gs]]
    by simp
  have 7: "set (map f_order_id facts) = set (map f_order_id facts') \<longrightarrow>
            fact_select fp now customers products staging facts =
            fact_select fp now customers products staging facts'"
    by (rule impI) (rule fact_select_by_order_ids)
  have 8: "\<forall>f \<in> set (fact_select fp now customers products staging (hs @ g # ks)).
            f_order_id f \<noteq> f_order_id g"
    by (rule ballI) (rule fact_select_skips_known)
  show ?thesis
    by (intro conjI) (rule 1 2 3 4 5 6 7 8)+
qed

theorem other_days_are_ignored_witness:
  "DATE (order_timestamp O_yesterday) \<noteq> DATE t_run \<and>
   check_duplicates t_run [O1, O_yesterday, O_yesterday] = check_duplicates t_run [O1] \<and>
   check_amount_mismatch binary64 sample_cast (\<lambda>i. ''uuid'') t_run [O1, O_yesterday, O_yesterday] [] =
     check_amount_mismatch binary64 sample_cast (\<lambda>i. ''uuid'') t_run [O1, O_yesterday] [] \<and>
   transform_to_fact binary64 t_run [] [] [O1, O_yesterday, O_yesterday] [] =
     transform_to_fact binary64 t_run [] [] [O1, O_yesterday] [] \<and>
   update_hourly_agg binary64 t_run (sample_facts @ joined_rows binary64 [] [] O_yesterday @ []) [] =
     update_hourly_agg binary64 t_run (sample_facts @ []) []"
proof -
  have d: "DATE (order_timestamp O_yesterday) \<noteq> DATE t_run"
    by (simp add: O_yesterday_def sample_order_def DATE_def t_order_def t_run_def)
  note inst = other_days_are_ignored[OF d, where fp = binary64 and fmt = sample_cast
      and uuid = "\<lambda>i. ''uuid''" and checks = "[]" and customers = "[]" and products = "[]"
      and facts = "[]" and fs = sample_facts and fp' = binary64 and customers' = "[]"
      and products' = "[]" and gs = "[]" and agg = "[]" and staging = "[]" and facts' = "[]"
      and hs = "[]" and g = old_fact and ks = "[]"]
  have c: "check_duplicates t_run [O1, O_yesterday, O_yesterday] = check_duplicates t_run [O1]"
    using inst[where xs = "[O1]" and ys = "[O_yesterday]"] inst[where xs = "[O1]" and ys = "[]"]
    by simp
  show ?thesis
    using d c inst[where xs = "[O1, O_yesterday]" and ys = "[]"] by simp
qed

text \<open>
  The fact row \<open>old_fact\<close> is dated yesterday and carries the \<^verbatim>\<open>order_id\<close> of
  \<open>O1\<close>, which is staged today: with it in the fact store the insert selects nothing,
  without it the two rows of \<open>O1\<close>.
\<close>

theorem other_days_counterexample:
  "DATE (f_order_timestamp old_fact) \<noteq> DATE t_run \<and> f_order_id old_fact = order_id O1 \<and>
   todays t_run [O1] = [O1] \<and>
   fact_select binary64 t_run [] [] [O1] [old_fact] = [] \<and>
   length (fact_select binary64 t_run [] [] [O1] []) = 2"
proof -
  have d: "DATE (f_order_timestamp old_fact) \<noteq> DATE t_run"
    by (simp add: old_fact_def fact_row_def DATE_def t_order_def t_run_def)
  have i: "f_order_id old_fact = order_id O1"
    by (simp add: old_fact_def fact_row_def)
  have a: "fact_select binary64 t_run [] [] [O1] [old_fact] = []"
    by (simp add: fact_select_def new_orders_def todays_O1 i)
  have b: "length (fact_select binary64 t_run [] [] [O1] []) = 2"
    by (simp add: fact_select_def new_orders_def todays_O1 joined_rows_def left_join_def)
      (simp add: O1_def sample_order_def)
  show ?thesis using d i a b todays_O1 by simp
qed

subsection \<open>The archiver and the objects it leaves\<close>

lemma fold_upload_keeps:
  "(n, c) \<in> set bkt \<Longrightarrow> n \<notin> fst ` set ups \<Longrightarrow> (n, c) \<in> set (fold upload ups bkt)"
  by (induction ups arbitrary: bkt) (auto simp: upload_def)

lemma str_replace_prefix:
  assumes "old \<noteq> []" and "prefix old s"
  shows "str_replace old new s = new @ str_replace old new (drop (length old) s)"
proof (cases s)
  case Nil
  then show ?thesis using assms by simp
next
  case (Cons c cs)
  then show ?thesis using assms by simp
qed

lemma new_name_archive:
  assumes "prefix GCS_ORDER_PREFIX name"
  shows "prefix ''archive/'' (new_name timestamp name)"
proof -
  have "prefix ''landing/'' GCS_ORDER_PREFIX" by (simp add: GCS_ORDER_PREFIX_def)
  then have "prefix ''landing/'' name" using assms by (rule prefix_order.trans)
  then have "new_name timestamp name = (''archive/'' @ timestamp @ ''/'') @
      str_replace ''landing/'' (''archive/'' @ timestamp @ ''/'') (drop (length ''landing/'') name)"
    unfolding new_name_def by (intro str_replace_prefix) simp_all
  then show ?thesis by simp
qed

lemma archived_not_landing:
  "prefix ''archive/'' name \<Longrightarrow> \<not> prefix GCS_ORDER_PREFIX name"
  by (auto simp: GCS_ORDER_PREFIX_def prefix_def)

lemma archived_out_of_sight:
  assumes "prefix GCS_ORDER_PREFIX name"
  shows "\<not> prefix GCS_ORDER_PREFIX (new_name timestamp name) \<and>
         \<not> source_objects (new_name timestamp name)"
  using archived_not_landing[OF new_name_archive[OF assms, of timestamp]]
  by (simp add: source_objects_def)

lemma archive_step_keeps:
  assumes "(n, c) \<in> set bkt" and "\<not> suffix ''.json'' n" and "prefix GCS_ORDER_PREFIX n"
    and "prefix GCS_ORDER_PREFIX (fst b)"
  shows "(n, c) \<in> set (if suffix ''.json'' (fst b) then rename_blob b (new_name ts (fst b)) bkt else bkt)"
proof (cases "suffix ''.json'' (fst b)")
  case False
  then show ?thesis using assms(1) by simp
next
  case True
  then have 1: "n \<noteq> fst b" using assms(2) by auto
  have 2: "n \<noteq> new_name ts (fst b)"
    using new_name_archive[OF assms(4), of ts] archived_not_landing assms(3) by auto
  show ?thesis using True 1 2 assms(1) by (simp add: rename_blob_def)
qed

lemma archive_fold_keeps:
  assumes "\<not> suffix ''.json'' n" and "prefix GCS_ORDER_PREFIX n"
  shows "(n, c) \<in> set bkt \<Longrightarrow> \<forall>b \<in> set bs. prefix GCS_ORDER_PREFIX (fst b) \<Longrightarrow>
     (n, c) \<in> set (fold (\<lambda>b bkt. if suffix ''.json'' (fst b)
        then rename_blob b (new_name ts (fst b)) bkt else bkt) bs bkt)"
proof (induction bs arbitrary: bkt)
  case Nil
  then show ?case by simp
next
  case (Cons b bs)
  have "(n, c) \<in> set (if suffix ''.json'' (fst b) then rename_blob b (new_name ts (fst b)) bkt else bkt)"
    using archive_step_keeps[OF Cons.prems(1) assms, of b ts] Cons.prems(2) by simp
  then show ?case using Cons.IH Cons.prems(2) by simp
qed

lemma archive_files_keeps:
  assumes "(n, c) \<in> set bkt" and "\<not> suffix ''.json'' n" and "prefix GCS_ORDER_PREFIX n"
  shows "(n, c) \<in> set (archive_files ts bkt)"
  unfolding archive_files_def
  by (rule archive_fold_keeps[OF assms(2,3,1)]) (simp add: list_blobs_def)

lemma run_dag_keeps:
  assumes "(n, c) \<in> set (bucket w)" and "\<not> suffix ''.json'' n" and "prefix GCS_ORDER_PREFIX n"
    and "n \<notin> fst ` set (landed_meanwhile ctx)"
  shows "(n, c) \<in> set (bucket (snd (run_dag ctx w)))"
  using run_dag_cases[of ctx w] assms
  by (elim disjE exE conjE) (auto intro: archive_files_keeps fold_upload_keeps)

lemma sensor_sees:
  "(n, c) \<in> set bkt \<Longrightarrow> prefix GCS_ORDER_PREFIX n \<Longrightarrow> check_new_files bkt"
  by (force simp: check_new_files_def list_blobs_def filter_empty_conv)

lemma not_json_not_loaded: "\<not> suffix ''.json'' n \<Longrightarrow> \<not> source_objects n"
  unfolding source_objects_def using suffix_drop suffix_order.trans by blast

lemma load_set_without:
  "\<not> suffix ''.json'' n \<Longrightarrow> load_set (filter (\<lambda>x. fst x \<noteq> n) bkt) = load_set bkt"
  unfolding load_set_def filter_filter
  by (rule filter_cong) (auto dest: not_json_not_loaded)

lemma runs_keeps:
  assumes "\<not> suffix ''.json'' n" and "prefix GCS_ORDER_PREFIX n"
  shows "(n, c) \<in> set (bucket w) \<Longrightarrow>
     \<forall>(landed, ctx) \<in> set sched. n \<notin> fst ` set landed \<and> n \<notin> fst ` set (landed_meanwhile ctx) \<Longrightarrow>
     (n, c) \<in> set (bucket (runs sched w))"
proof (induction sched arbitrary: w)
  case Nil
  then show ?case by simp
next
  case (Cons step sched)
  obtain landed ctx where step: "step = (landed, ctx)" by (cases step)
  let ?w = "w\<lparr>bucket := fold upload landed (bucket w)\<rparr>"
  have "(n, c) \<in> set (bucket ?w)"
    using fold_upload_keeps[OF Cons.prems(1), of landed] Cons.prems(2) step by simp
  then have "(n, c) \<in> set (bucket (snd (run_dag ctx ?w)))"
    using run_dag_keeps[OF _ assms, of c ?w ctx] Cons.prems(2) step by simp
  then show ?case using Cons.IH Cons.prems(2) step by simp
qed

text \<open>
  Claim C10. An object under the landing prefix whose name does not end in
  \<^verbatim>\<open>.json\<close> is still in the bucket, under its name and with its content, after any
  number of runs in which nobody uploads an object of that name. Before each further run
  it makes the sensor succeed; it is not in the load set, the load job does what it would
  do without it, and the archiver leaves it in place.
\<close>

theorem other_objects_stay:
  assumes "(n, c) \<in> set (bucket w)" and "prefix GCS_ORDER_PREFIX n" and "\<not> suffix ''.json'' n"
    and "\<forall>(landed, ctx) \<in> set sched.
           n \<notin> fst ` set landed \<and> n \<notin> fst ` set (landed_meanwhile ctx)"
  shows "(n, c) \<in> set (bucket (runs sched w)) \<and>
         check_new_files (bucket (runs sched w)) \<and>
         (n, c) \<notin> set (load_set (bucket (runs sched w))) \<and>
         load_to_staging (bucket (runs sched w)) staging =
           load_to_staging (filter (\<lambda>x. fst x \<noteq> n) (bucket (runs sched w))) staging \<and>
         (n, c) \<in> set (archive_files ts (bucket (runs sched w)))"
proof -
  have k: "(n, c) \<in> set (bucket (runs sched w))"
    using runs_keeps[OF assms(3,2,1,4)] .
  have l: "(n, c) \<notin> set (load_set (bucket (runs sched w)))"
    using not_json_not_loaded[OF assms(3)] by (auto simp: load_set_def)
  have s: "load_to_staging (bucket (runs sched w)) staging =
           load_to_staging (filter (\<lambda>x. fst x \<noteq> n) (bucket (runs sched w))) staging"
    by (simp add: load_to_staging_def load_set_without[OF assms(3)])
  show ?thesis
    using k l s sensor_sees[OF k assms(2)] archive_files_keeps[OF k assms(3,2)] by blast
qed

lemma new_name_a:
  "new_name ''20240101_110000'' ''landing/orders/a.json'' = ''archive/20240101_110000/orders/a.json''"
  by (simp add: new_name_def)

lemma new_name_b:
  "new_name ''20240101_110000'' ''landing/orders/b.json'' = ''archive/20240101_110000/orders/b.json''"
  by (simp add: new_name_def)

lemma archive_sample:
  "archive_files ''20240101_110000''
     [(''landing/orders/b.json'', cb), (''landing/orders/a.json'', ca)] =
   [(''archive/20240101_110000/orders/a.json'', ca), (''archive/20240101_110000/orders/b.json'', cb)]"
  by (simp add: archive_files_def list_blobs_def GCS_ORDER_PREFIX_def suffix_to_prefix
      rename_blob_def new_name_a new_name_b)

lemma archive_readme:
  "archive_files ''20240101_110000'' [readme, (''landing/orders/a.json'', ca)] =
   [(''archive/20240101_110000/orders/a.json'', ca), readme]"
  by (simp add: archive_files_def list_blobs_def GCS_ORDER_PREFIX_def suffix_to_prefix
      rename_blob_def new_name_a readme_def)

lemma run_dag_success:
  assumes "check_new_files (bucket w)"
    and "load_to_staging (bucket w) (staging_orders w) = Inr staged"
    and "check_duplicates (t_check_duplicates ctx) staged"
  shows "fst (run_dag ctx w) = None"
    and "staging_orders (snd (run_dag ctx w)) = staged"
    and "bucket (snd (run_dag ctx w)) =
         archive_files (archive_timestamp ctx) (fold upload (landed_meanwhile ctx) (bucket w))"
  using run_dag_cases[of ctx w] assms by auto

text \<open>
  Claim C8, on a concrete run. The load job reads \<^verbatim>\<open>a.json\<close>, the only object of
  its load set; \<^verbatim>\<open>b.json\<close> lands before the archiver lists the bucket. The run
  succeeds, the staging table holds the order of \<^verbatim>\<open>a.json\<close> alone, and both objects
  are in the archive: the archiver lists the bucket anew and does not keep to the load set.
\<close>

theorem archiver_takes_unloaded_objects:
  "load_set (bucket (sample_warehouse [(''landing/orders/a.json'', Some [O1])])) =
     [(''landing/orders/a.json'', Some [O1])] \<and>
   fst (run_dag (sample_context\<lparr>landed_meanwhile := [(''landing/orders/b.json'', Some [O2])]\<rparr>)
     (sample_warehouse [(''landing/orders/a.json'', Some [O1])])) = None \<and>
   staging_orders (snd (run_dag
     (sample_context\<lparr>landed_meanwhile := [(''landing/orders/b.json'', Some [O2])]\<rparr>)
     (sample_warehouse [(''landing/orders/a.json'', Some [O1])]))) = [O1] \<and>
   bucket (snd (run_dag
     (sample_context\<lparr>landed_meanwhile := [(''landing/orders/b.json'', Some [O2])]\<rparr>)
     (sample_warehouse [(''landing/orders/a.json'', Some [O1])]))) =
     [(''archive/20240101_110000/orders/a.json'', Some [O1]),
      (''archive/20240101_110000/orders/b.json'', Some [O2])]"
proof -
  let ?w = "sample_warehouse [(''landing/orders/a.json'', Some [O1])]"
  let ?ctx = "sample_context\<lparr>landed_meanwhile := [(''landing/orders/b.json'', Some [O2])]\<rparr>"
  have ls: "load_set (bucket ?w) = [(''landing/orders/a.json'', Some [O1])]"
    by (simp add: sample_warehouse_def load_set_def source_objects_def GCS_ORDER_PREFIX_def
        suffix_to_prefix)
  have s: "check_new_files (bucket ?w)"
    by (simp add: sample_warehouse_def sample_sensor)
  have l: "load_to_staging (bucket ?w) (staging_orders ?w) = Inr [O1]"
    by (simp add: sample_warehouse_def sample_load)
  have c: "check_duplicates (t_check_duplicates ?ctx) [O1]"
    unfolding check_duplicates_iff by (simp add: sample_context_def todays_O1)
  have u: "fold upload (landed_meanwhile ?ctx) (bucket ?w) =
      [(''landing/orders/b.json'', Some [O2]), (''landing/orders/a.json'', Some [O1])]"
    by (simp add: sample_context_def sample_warehouse_def upload_def)
  have t: "archive_timestamp ?ctx = ''20240101_110000''"
    by (simp add: sample_context_def)
  show ?thesis
    unfolding run_dag_success[OF s l c] u t archive_sample using ls by simp
qed

lemma readme_second_run:
  "fst (run_dag sample_context (runs [([], sample_context)]
     (sample_warehouse [readme, (''landing/orders/a.json'', Some [O1])]))) = Some LoadNotFound"
proof -
  let ?w = "sample_warehouse [readme, (''landing/orders/a.json'', Some [O1])]"
  let ?w' = "snd (run_dag sample_context ?w)"
  have s: "check_new_files (bucket ?w)"
    by (simp add: sample_warehouse_def readme_def check_new_files_def list_blobs_def
        GCS_ORDER_PREFIX_def)
  have l: "load_to_staging (bucket ?w) (staging_orders ?w) = Inr [O1]"
    by (simp add: sample_warehouse_def readme_def load_to_staging_def load_set_def
        source_objects_def GCS_ORDER_PREFIX_def suffix_to_prefix)
  have c: "check_duplicates (t_check_duplicates sample_context) [O1]"
    unfolding check_duplicates_iff by (simp add: sample_context_def todays_O1)
  have b: "bucket ?w' = [(''archive/20240101_110000/orders/a.json'', Some [O1]), readme]"
    unfolding run_dag_success[OF s l c]
    by (simp add: sample_context_def sample_warehouse_def archive_readme)
  have s': "check_new_files (bucket ?w')"
    unfolding b by (simp add: readme_def check_new_files_def list_blobs_def GCS_ORDER_PREFIX_def)
  have l': "load_to_staging (bucket ?w') (staging_orders ?w') = Inl LoadNotFound"
    unfolding b
    by (simp add: readme_def load_to_staging_def load_set_def source_objects_def
        GCS_ORDER_PREFIX_def suffix_to_prefix)
  have "fst (run_dag sample_context ?w') = Some LoadNotFound"
    using run_dag_cases[of sample_context ?w'] s' l' by auto
  moreover have "runs [([], sample_context)] ?w = ?w'"
    by (simp add: sample_warehouse_def)
  ultimately show ?thesis by simp
qed

theorem other_objects_stay_witness:
  "readme \<in> set (bucket (sample_warehouse [readme, (''landing/orders/a.json'', Some [O1])])) \<and>
   prefix GCS_ORDER_PREFIX (fst readme) \<and> \<not> suffix ''.json'' (fst readme) \<and>
   readme \<in> set (bucket (runs [([], sample_context), ([], sample_context)]
     (sample_warehouse [readme, (''landing/orders/a.json'', Some [O1])]))) \<and>
   check_new_files (bucket (runs [([], sample_context), ([], sample_context)]
     (sample_warehouse [readme, (''landing/orders/a.json'', Some [O1])]))) \<and>
   fst (run_dag sample_context (runs [([], sample_context)]
     (sample_warehouse [readme, (''landing/orders/a.json'', Some [O1])]))) = Some LoadNotFound"
proof -
  let ?w = "sample_warehouse [readme, (''landing/orders/a.json'', Some [O1])]"
  let ?sched = "[([], sample_context), ([], sample_context)]"
  have m: "(fst readme, snd readme) \<in> set (bucket ?w)"
    by (simp add: sample_warehouse_def)
  have p: "prefix GCS_ORDER_PREFIX (fst readme)"
    by (simp add: readme_def GCS_ORDER_PREFIX_def)
  have j: "\<not> suffix ''.json'' (fst readme)"
    by (simp add: readme_def suffix_to_prefix)
  have q: "\<forall>(landed, ctx) \<in> set ?sched.
      fst readme \<notin> fst ` set landed \<and> fst readme \<notin> fst ` set (landed_meanwhile ctx)"
    by (simp add: sample_context_def)
  show ?thesis
    using m p j other_objects_stay[OF m p j q] readme_second_run by simp
qed

subsection \<open>The load pattern and the archiver's test\<close>

text \<open>
  The pattern of the load job and the two tests of the archiver select the same names, so
  on one and the same listing the archiver renames the load set and nothing else.
\<close>


lemma source_objects_iff:
  "source_objects name \<longleftrightarrow> prefix GCS_ORDER_PREFIX name \<and> suffix ''.json'' name"
proof
  assume "source_objects name"
  then show "prefix GCS_ORDER_PREFIX name \<and> suffix ''.json'' name"
    unfolding source_objects_def using suffix_drop suffix_order.trans by blast
next
  assume a: "prefix GCS_ORDER_PREFIX name \<and> suffix ''.json'' name"
  then obtain rest where n: "name = GCS_ORDER_PREFIX @ rest" by (auto simp: prefix_def)
  have "suffix ''.json'' rest"
  proof -
    from a n have "suffix ''.json'' (GCS_ORDER_PREFIX @ rest)" by simp
    then consider "suffix ''.json'' rest"
      | xs where "''.json'' = xs @ rest" "suffix xs GCS_ORDER_PREFIX" "xs \<noteq> []"
      unfolding suffix_append by (metis append_Nil suffix_order.refl)
    then show ?thesis
    proof cases
      case 1
      then show ?thesis .
    next
      case 2
      from 2(2,3) have "last xs = CHR ''/''"
        by (auto simp: suffix_def GCS_ORDER_PREFIX_def dest!: arg_cong[where f=last])
      moreover from 2(1,3) have "last xs \<in> set ''.json''"
        by (metis last_in_set Un_iff set_append)
      ultimately show ?thesis by simp
    qed
  qed
  then show "source_objects name" by (simp add: source_objects_def n)
qed

lemma archiver_selects_load_set:
  "filter (\<lambda>b. suffix ''.json'' (fst b)) (list_blobs GCS_ORDER_PREFIX bkt) = load_set bkt"
  unfolding list_blobs_def load_set_def filter_filter
  by (rule filter_cong) (auto simp: source_objects_iff)

end
